theory Spec2Isabelle
  imports Complex_Main "HOL-Library.Word" "HOL-Library.Signed_Division"
begin

unbundle bit_operations_syntax

section \<open>Common types\<close>

text \<open>
  Go's \<open>[]byte\<close> is a list of 8-bit words; a nil slice and an empty slice are both the
  empty list (they have the same length and the same elements). Go's \<open>int\<close>, \<open>int64\<close>
  and \<open>uint64\<close> are 64-bit words: \<open>+\<close>, \<open>-\<close> and \<open>*\<close> wrap around, \<open>sint\<close> reads
  the signed value. An \<open>error\<close> carries its message. A Go function either returns or
  panics; \<open>Panic\<close> is the run-time panic.
\<close>

type_synonym byte = "8 word"
type_synonym bytes = "byte list"
type_synonym int64 = "64 word"
type_synonym uint64 = "64 word"
type_synonym uint32 = "32 word"
type_synonym int32 = "32 word"

datatype error = Error string

datatype 'a outcome = Panic string | Return 'a

text \<open>
  A finite \<open>float64\<close> is the rational it denotes. The conversions \<open>int64(x)\<close> and
  \<open>uint32(x)\<close> of a float truncate towards zero; for a value outside the target range
  Go leaves the result to the implementation, and the model wraps around.
\<close>

type_synonym float64 = rat

definition float_trunc :: "rat \<Rightarrow> int" where
  "float_trunc x = (if 0 \<le> x then \<lfloor>x\<rfloor> else \<lceil>x\<rceil>)"

definition int64_of_float :: "float64 \<Rightarrow> int64" where
  "int64_of_float x = word_of_int (float_trunc x)"

definition uint32_of_float :: "float64 \<Rightarrow> uint32" where
  "uint32_of_float x = word_of_int (float_trunc x)"

text \<open>
  The arithmetic of float64 rounds to the nearest value with a 53-bit significand, ties
  to the even one (IEEE 754 binary64, subnormals below \<open>2^-1022\<close>). \<open>bit_length n\<close> is
  the number of binary digits of a positive \<open>n\<close>; \<open>float_exponent x\<close> is the \<open>e\<close> with
  \<open>2^e \<le> x < 2^(e+1)\<close> for a positive \<open>x\<close>. In \<open>fmul\<close> and \<open>fdiv\<close>, Go's \<open>*\<close> and \<open>/\<close>
  on float64, a rational operand stands for the float64 nearest to it, as a decimal
  literal or a decoded JSON number does. A result beyond the largest finite float64,
  which is an infinity in Go, is not modelled.
\<close>

function bit_length :: "int \<Rightarrow> int" where
  "bit_length n = (if n \<le> 0 then 0 else 1 + bit_length (n div 2))"
  by pat_completeness auto
termination
  by (relation "measure nat") auto

declare bit_length.simps [simp del]

definition float_exponent :: "rat \<Rightarrow> int" where
  "float_exponent x =
    (case quotient_of x of
       (p, q) \<Rightarrow>
         (let k = bit_length p - bit_length q
          in if 2 powi k \<le> x then k else k - 1))"

definition round_half_even :: "rat \<Rightarrow> int" where
  "round_half_even y =
    (let n = \<lfloor>y\<rfloor>; r = y - of_int n
     in if r < 1 / 2 then n
        else if 1 / 2 < r then n + 1
        else if even n then n else n + 1)"

definition float64_round :: "rat \<Rightarrow> float64" where
  "float64_round x =
    (if x = 0 then 0
     else
       (let e = max (float_exponent \<bar>x\<bar>) (- 1022);
            ulp = 2 powi (e - 52)
        in sgn x * of_int (round_half_even (\<bar>x\<bar> / ulp)) * ulp))"

definition fmul :: "float64 \<Rightarrow> float64 \<Rightarrow> float64" where
  "fmul a b = float64_round (float64_round a * float64_round b)"

definition fdiv :: "float64 \<Rightarrow> float64 \<Rightarrow> float64" where
  "fdiv a b = float64_round (float64_round a / float64_round b)"

text \<open>Go's integer division \<open>a / b\<close> on \<open>int\<close> truncates towards zero.\<close>

definition int_div :: "int64 \<Rightarrow> int64 \<Rightarrow> int64" where
  "int_div a b = word_of_int (sint a sdiv sint b)"


section \<open>Exchange rates: \<open>CMCDecoder.decode\<close> (bitcoin/exchange/bitcoinprices.go)\<close>

text \<open>
  The value \<open>encoding/json\<close> decodes into an \<open>interface{}\<close>: nil, bool, float64, string,
  \<open>[]interface{}\<close> or \<open>map[string]interface{}\<close>. A decoded map has each key once; it is
  an association list read with \<open>map_of\<close>. The number type is a parameter, as is
  \<open>strconv.ParseFloat(s, 64)\<close>, which gives the float64 for a literal or an error.
\<close>

datatype 'f json =
    JNil
  | JBool bool
  | JNumber 'f
  | JString string
  | JArray "'f json list"
  | JObject "(string \<times> 'f json) list"

text \<open>
  \<open>decode\<close> returns its error (\<open>None\<close> is nil) together with the cache map, which it
  updates in place. The two unchecked type assertions \<open>dat.([]interface{})\<close> and
  \<open>data[0].(map[string]interface{})\<close> panic on a value of another dynamic type; the
  checked assertion \<open>priceUSDObj.(string)\<close> yields \<open>ok = false\<close> instead.
\<close>

definition decode ::
  "(string \<Rightarrow> error + 'f) \<Rightarrow> 'f json \<Rightarrow> (string \<rightharpoonup> 'f) \<Rightarrow> error option outcome \<times> (string \<rightharpoonup> 'f)"
where
  "decode ParseFloat dat cache =
    (case dat of
       JArray data \<Rightarrow>
         (if length data < 1 then (Return (Some (Error ''could not get currency'')), cache)
          else
            (case data ! 0 of
               JObject priceInfo \<Rightarrow>
                 (case map_of priceInfo ''price_usd'' of
                    None \<Rightarrow> (Return (Some (Error ''could not get USD price'')), cache)
                  | Some priceUSDObj \<Rightarrow>
                      (case priceUSDObj of
                         JString priceUSDString \<Rightarrow>
                           (case ParseFloat priceUSDString of
                              Inl err \<Rightarrow> (Return (Some (Error ''usd price is not a number'')), cache)
                            | Inr priceUSD \<Rightarrow> (Return None, cache(''PHR'' \<mapsto> priceUSD)))
                       | _ \<Rightarrow> (Return (Some (Error ''could not decode current USD price'')), cache)))
             | _ \<Rightarrow> (Panic ''interface conversion: interface {} is not map[string]interface {}'', cache)))
     | _ \<Rightarrow> (Panic ''interface conversion: interface {} is not []interface {}'', cache))"

text \<open>The payload of \<open>TestDecodeCMCDecoder\<close>, as \<open>encoding/json\<close> decodes it.\<close>

definition sample_payload :: "'f json" where
  "sample_payload = JArray [JObject
     [(''id'', JString ''phore''),
      (''name'', JString ''Phore''),
      (''symbol'', JString ''PHR''),
      (''rank'', JString ''377''),
      (''price_usd'', JString ''0.542017''),
      (''price_btc'', JString ''0.00004258''),
      (''24h_volume_usd'', JString ''52747.3''),
      (''market_cap_usd'', JString ''5275455.0''),
      (''available_supply'', JString ''9733007.0''),
      (''total_supply'', JString ''11349574.0''),
      (''max_supply'', JNil),
      (''percent_change_1h'', JString ''4.49''),
      (''percent_change_24h'', JString ''21.59''),
      (''percent_change_7d'', JString ''11.32''),
      (''last_updated'', JString ''1512583195'')]]"

text \<open>
  A reader of plain decimal literals (\<open>digits.digits\<close>, no sign, no exponent) into the
  rationals: an instance of \<open>ParseFloat\<close> for evaluating \<open>decode\<close> on concrete payloads.
\<close>

definition isDigit :: "char \<Rightarrow> bool" where
  "isDigit c = (48 \<le> (of_char c :: nat) \<and> (of_char c :: nat) \<le> 57)"

definition digitVal :: "char \<Rightarrow> int" where
  "digitVal c = int (of_char c) - 48"

fun parseDigits :: "int \<Rightarrow> string \<Rightarrow> int option" where
  "parseDigits n [] = Some n"
| "parseDigits n (c # cs) = (if isDigit c then parseDigits (n * 10 + digitVal c) cs else None)"

definition parseDecimal :: "string \<Rightarrow> error + rat" where
  "parseDecimal s =
    (let ip = takeWhile (\<lambda>c. c \<noteq> CHR ''.'') s;
         fp = drop (Suc (length ip)) s
     in if ip = [] \<or> length ip = length s \<or> fp = [] then Inl (Error ''invalid syntax'')
        else
          (case (parseDigits 0 ip, parseDigits 0 fp) of
             (Some i, Some f) \<Rightarrow> Inr (of_int i + of_int f / of_int (10 ^ length fp))
           | _ \<Rightarrow> Inl (Error ''invalid syntax'')))"


section \<open>Migration 5 to 6 (repo/migrations)\<close>

subsection \<open>The file system\<close>

text \<open>
  The files the migration touches: a map from path to contents, with the two ways an
  operation on a path can fail. A path in \<open>nowrite\<close> cannot be opened for writing
  (\<open>os.Create\<close> and \<open>ioutil.WriteFile\<close> fail before they truncate); a path in \<open>wfail\<close>
  opens, and is truncated, but a write to it fails. File contents are byte strings.
\<close>

record fs =
  files :: "string \<rightharpoonup> string"
  nowrite :: "string set"
  wfail :: "string set"

text \<open>\<open>os.Create\<close>: creates the file or truncates it, and returns the open file.\<close>

definition os_Create :: "fs \<Rightarrow> string \<Rightarrow> (error + string) \<times> fs" where
  "os_Create s name =
    (if name \<in> nowrite s then (Inl (Error ''open: permission denied''), s)
     else (Inr name, s\<lparr>files := (files s)(name \<mapsto> [])\<rparr>))"

text \<open>
  \<open>(*os.File).Write\<close> on a file opened by \<open>os.Create\<close>: the bytes go after those
  already written through it. A file removed in the meantime is no longer visible.
\<close>

definition file_Write :: "fs \<Rightarrow> string \<Rightarrow> string \<Rightarrow> error option \<times> fs" where
  "file_Write s f b =
    (if f \<in> wfail s then (Some (Error ''write: no space left on device''), s)
     else
       (case files s f of
          None \<Rightarrow> (None, s)
        | Some old \<Rightarrow> (None, s\<lparr>files := (files s)(f \<mapsto> old @ b)\<rparr>)))"

text \<open>\<open>ioutil.WriteFile\<close>: open with create and truncate, write, close.\<close>

definition ioutil_WriteFile :: "fs \<Rightarrow> string \<Rightarrow> string \<Rightarrow> error option \<times> fs" where
  "ioutil_WriteFile s filename data =
    (case os_Create s filename of
       (Inl err, s1) \<Rightarrow> (Some err, s1)
     | (Inr f, s1) \<Rightarrow> file_Write s1 f data)"

text \<open>\<open>os.Remove\<close>: fails when there is no such file.\<close>

definition os_Remove :: "fs \<Rightarrow> string \<Rightarrow> error option \<times> fs" where
  "os_Remove s name =
    (case files s name of
       None \<Rightarrow> (Some (Error ''remove: no such file or directory''), s)
     | Some _ \<Rightarrow> (None, s\<lparr>files := (files s)(name := None)\<rparr>))"

subsection \<open>\<open>path.Join\<close>\<close>

text \<open>
  \<open>path.Join\<close> of two elements: empty elements are ignored, the rest are joined with a
  slash and the result is cleaned. \<open>path.Clean\<close> drops empty and \<open>.\<close> elements, cancels
  \<open>..\<close> against the element before it, drops \<open>..\<close> at the start of a rooted path, and
  returns \<open>.\<close> for an empty result.
\<close>

fun splitSlash :: "string \<Rightarrow> string list" where
  "splitSlash [] = [[]]"
| "splitSlash (c # cs) =
     (if c = CHR ''/'' then [] # splitSlash cs
      else (case splitSlash cs of [] \<Rightarrow> [[c]] | w # ws \<Rightarrow> (c # w) # ws))"

definition cleanStep :: "bool \<Rightarrow> string list \<Rightarrow> string \<Rightarrow> string list" where
  "cleanStep rooted st c =
    (if c = [] \<or> c = ''.'' then st
     else if c = ''..'' then
       (if st \<noteq> [] \<and> last st \<noteq> ''..'' then butlast st
        else if rooted then st
        else st @ [c])
     else st @ [c])"

fun joinSlash :: "string list \<Rightarrow> string" where
  "joinSlash [] = []"
| "joinSlash [c] = c"
| "joinSlash (c # d # cs) = c @ ''/'' @ joinSlash (d # cs)"

definition Clean :: "string \<Rightarrow> string" where
  "Clean p =
    (if p = [] then ''.''
     else
       (let rooted = (hd p = CHR ''/'');
            out = (if rooted then ''/'' else []) @ joinSlash (foldl (cleanStep rooted) [] (splitSlash p))
        in if out = [] then ''.'' else out))"

definition path_Join :: "string \<Rightarrow> string \<Rightarrow> string" where
  "path_Join a b =
    (if a = [] \<and> b = [] then []
     else if a = [] then Clean b
     else if b = [] then Clean a
     else Clean (a @ ''/'' @ b))"

text \<open>
  For a plain file name \<open>n\<close>, \<open>path.Join r n\<close> is \<open>n\<close> behind a prefix that depends on
  \<open>r\<close> alone: the cleaned elements of \<open>r\<close>, each followed by a slash.
\<close>

definition slashed :: "string list \<Rightarrow> string" where
  "slashed st = concat (map (\<lambda>c. c @ ''/'') st)"

definition dirPrefix :: "string \<Rightarrow> string" where
  "dirPrefix r =
    (if r = [] then []
     else (if hd r = CHR ''/'' then ''/'' else []) @
          slashed (foldl (cleanStep (hd r = CHR ''/'')) [] (splitSlash r)))"

subsection \<open>\<open>migration005\<close>\<close>

definition swarmKeyData :: string where
  "swarmKeyData =
     ''/key/swarm/psk/1.0.0/'' @ [CHR 0x0A] @ ''/base16/'' @ [CHR 0x0A] @
     ''59468cfd4d4dc2a61395080513e853434d0313495f34be65c18d643d09eafe6f''"

text \<open>
  \<open>Up\<close> and \<open>Down\<close> return their error (\<open>None\<close> is nil) and the file system they leave.
  \<open>dbPassword\<close> and \<open>testnet\<close> are not used by either.
\<close>

definition Up :: "fs \<Rightarrow> string \<Rightarrow> string \<Rightarrow> bool \<Rightarrow> error option \<times> fs" where
  "Up s repoPath dbPassword testnet =
    (case os_Create s (path_Join repoPath ''repover'') of
       (Inl err, s1) \<Rightarrow> (Some err, s1)
     | (Inr f1, s1) \<Rightarrow>
         (case ioutil_WriteFile s1 (path_Join repoPath ''swarm.key'') swarmKeyData of
            (Some err, s2) \<Rightarrow> (Some err, s2)
          | (None, s2) \<Rightarrow>
              (case file_Write s2 f1 ''6'' of
                 (Some err, s3) \<Rightarrow> (Some err, s3)
               | (None, s3) \<Rightarrow> (None, s3))))"

definition Down :: "fs \<Rightarrow> string \<Rightarrow> string \<Rightarrow> bool \<Rightarrow> error option \<times> fs" where
  "Down s repoPath dbPassword testnet =
    (case os_Create s (path_Join repoPath ''repover'') of
       (Inl err, s1) \<Rightarrow> (Some err, s1)
     | (Inr f1, s1) \<Rightarrow>
         (case os_Remove s1 (path_Join repoPath ''swarm.key'') of
            (Some err, s2) \<Rightarrow> (Some err, s2)
          | (None, s2) \<Rightarrow>
              (case file_Write s2 f1 ''5'' of
                 (Some err, s3) \<Rightarrow> (Some err, s3)
               | (None, s3) \<Rightarrow> (None, s3))))"

text \<open>An empty repository directory on a file system where no operation fails.\<close>

definition empty_repo :: fs where
  "empty_repo = \<lparr>files = Map.empty, nowrite = {}, wfail = {}\<rparr>"


section \<open>The wallet (bitcoin/phored/wallet.go)\<close>

subsection \<open>Transactions, signatures and unspent outputs\<close>

text \<open>
  The \<open>wire\<close> types, with the constructors \<open>wire.NewOutPoint\<close>, \<open>wire.NewTxIn\<close> (which
  sets the sequence to \<open>MaxTxInSequenceNum\<close>) and \<open>wire.NewTxOut\<close>. A \<open>chainhash.Hash\<close> is
  the list of its bytes.
\<close>

record OutPoint =
  Hash :: bytes
  Index :: uint32

record TxIn =
  PreviousOutPoint :: OutPoint
  SignatureScript :: bytes
  Witness :: "bytes list"
  Sequence :: uint32

record TxOut =
  Value :: int64
  PkScript :: bytes

record MsgTx =
  Version :: int32
  TxIn :: "TxIn list"
  TxOut :: "TxOut list"
  LockTime :: uint32

definition NewOutPoint :: "bytes \<Rightarrow> uint32 \<Rightarrow> OutPoint" where
  "NewOutPoint hash index = \<lparr>Hash = hash, Index = index\<rparr>"

definition NewTxIn :: "OutPoint \<Rightarrow> bytes \<Rightarrow> bytes list \<Rightarrow> TxIn" where
  "NewTxIn prevOut signatureScript witness =
     \<lparr>PreviousOutPoint = prevOut, SignatureScript = signatureScript, Witness = witness,
      Sequence = 0xffffffff\<rparr>"

definition NewTxOut :: "int64 \<Rightarrow> bytes \<Rightarrow> TxOut" where
  "NewTxOut value pkScript = \<lparr>Value = value, PkScript = pkScript\<rparr>"

text \<open>
  The structs of \<open>wallet-interface\<close> and \<open>btcjson\<close>, with the fields the wallet reads. The
  \<open>Value\<close> fields of \<open>TransactionInput\<close>, \<open>TransactionOutput\<close> and \<open>Utxo\<close> are
  \<open>in_Value\<close>, \<open>out_Value\<close> and \<open>utxo_Value\<close>; \<open>Amount\<close> is a float64, in coins. The
  \<open>ScriptPubKey\<close> of an unspent output, in hex, is \<open>unspent_ScriptPubKey\<close>, and the
  \<open>Confirmations\<close> of a wallet transaction \<open>tx_Confirmations\<close>.
\<close>

record TransactionInput =
  OutpointHash :: bytes
  OutpointIndex :: uint32
  in_Value :: int64

record TransactionOutput =
  ScriptPubKey :: bytes
  out_Value :: int64

record Signature =
  InputIndex :: uint32
  Signature :: bytes

record Utxo =
  Op :: OutPoint
  utxo_Value :: int64
  ScriptPubkey :: bytes

record ListUnspentResult =
  TxID :: string
  Vout :: uint32
  Address :: string
  unspent_ScriptPubKey :: string
  Amount :: float64
  Confirmations :: int64

record GetTransactionResult =
  tx_Confirmations :: int64

datatype FeeLevel = PRIOIRTY | NORMAL | ECONOMIC | FEE_BUMP

datatype InputType =
    P2PKH
  | P2SH_1of2_Multisig
  | P2SH_2of3_Multisig
  | P2SH_Multisig_Timelock_1Sig
  | P2SH_Multisig_Timelock_2Sigs

definition OP_IF :: byte where "OP_IF = 0x63"
definition OP_ELSE :: byte where "OP_ELSE = 0x67"
definition OP_ENDIF :: byte where "OP_ENDIF = 0x68"
definition OP_DROP :: byte where "OP_DROP = 0x75"
definition OP_CHECKSIG :: byte where "OP_CHECKSIG = 0xac"
definition OP_CHECKMULTISIG :: byte where "OP_CHECKMULTISIG = 0xae"
definition OP_CHECKSEQUENCEVERIFY :: byte where "OP_CHECKSEQUENCEVERIFY = 0xb2"

subsection \<open>The libraries and the daemon\<close>

text \<open>
  The wallet calls into \<open>btcd\<close>, \<open>btcutil\<close>, \<open>spvwallet\<close> and the daemon's RPC client.
  What these return is a parameter of the model: \<open>lib\<close> holds the library functions and
  \<open>rpc\<close> the daemon's answers. An address is its encoded string (\<open>None\<close> is the nil
  address), a key its serialisation. The calls a \<open>txscript.ScriptBuilder\<close> receives are
  a list of \<open>scriptop\<close>, which \<open>Script\<close> turns into the script or the builder's error.
\<close>

type_synonym Address = string
type_synonym ExtendedKey = bytes
type_synonym PrivateKey = bytes
type_synonym PublicKey = bytes

datatype scriptop = AddOp byte | AddInt64 int64 | AddData bytes

record lib =
  NewHashFromStr :: "string \<Rightarrow> error + bytes"
  Hash_String :: "bytes \<Rightarrow> string"
  LockTimeFromRedeemScript :: "bytes \<Rightarrow> error + uint32"
  EstimateSerializeSize :: "int64 \<Rightarrow> TxOut list \<Rightarrow> bool \<Rightarrow> InputType \<Rightarrow> int64"
  InPlaceSort :: "MsgTx \<Rightarrow> MsgTx"
  BtcEncode :: "MsgTx \<Rightarrow> bytes"
  TxHash :: "MsgTx \<Rightarrow> bytes"
  PayToAddrScript :: "Address option \<Rightarrow> error + bytes"
  SignTxOutput :: "MsgTx \<Rightarrow> nat \<Rightarrow> bytes \<Rightarrow> PrivateKey \<Rightarrow> bytes option \<Rightarrow> bytes \<Rightarrow> error + bytes"
  RawTxInWitnessSignature :: "MsgTx \<Rightarrow> MsgTx \<Rightarrow> nat \<Rightarrow> int64 \<Rightarrow> bytes \<Rightarrow> PrivateKey \<Rightarrow> error + bytes"
  ECPrivKey :: "ExtendedKey \<Rightarrow> error + PrivateKey"
  ECPubKey :: "ExtendedKey \<Rightarrow> error + PublicKey"
  SerializeCompressed :: "PublicKey \<Rightarrow> bytes"
  LockTimeToSequence :: "bool \<Rightarrow> uint32 \<Rightarrow> uint32"
  Script :: "scriptop list \<Rightarrow> error + bytes"
  Sum256 :: "bytes \<Rightarrow> bytes"
  NewAddressWitnessScriptHash :: "bytes \<Rightarrow> error + Address"
  DecodeAddress :: "string \<Rightarrow> error + Address"
  NewExtendedKey :: "PrivateKey \<Rightarrow> ExtendedKey"

record rpc =
  RawRequest :: "string \<Rightarrow> string list \<Rightarrow> error + string"
  ListUnspent :: "error + ListUnspentResult list"
  SendRawTransaction :: "MsgTx \<Rightarrow> bool \<Rightarrow> error + bytes"
  GetAccountAddress :: "string \<Rightarrow> error + Address"
  GetTransaction :: "bytes \<Rightarrow> bool \<Rightarrow> error + GetTransactionResult"
  DumpPrivKey :: "Address \<Rightarrow> error + PrivateKey"

text \<open>\<open>encoding/hex.EncodeToString\<close>: two lower-case digits for each byte.\<close>

definition hexDigit :: "nat \<Rightarrow> char" where
  "hexDigit n = ''0123456789abcdef'' ! n"

definition hex_EncodeToString :: "bytes \<Rightarrow> string" where
  "hex_EncodeToString src = concat (map (\<lambda>b. [hexDigit (unat b div 16), hexDigit (unat b mod 16)]) src)"

text \<open>
  \<open>encoding/hex.DecodeString\<close>: a byte for each pair of hex digits of either case; an
  error for any other character and for an odd number of digits.
\<close>

definition fromHexChar :: "char \<Rightarrow> nat option" where
  "fromHexChar c =
    (let n = (of_char c :: nat)
     in if 48 \<le> n \<and> n \<le> 57 then Some (n - 48)
        else if 97 \<le> n \<and> n \<le> 102 then Some (n - 87)
        else if 65 \<le> n \<and> n \<le> 70 then Some (n - 55)
        else None)"

fun hex_DecodeString :: "string \<Rightarrow> error + bytes" where
  "hex_DecodeString [] = Inr []"
| "hex_DecodeString [a] =
     (case fromHexChar a of
        None \<Rightarrow> Inl (Error ''encoding/hex: invalid byte'')
      | Some _ \<Rightarrow> Inl (Error ''encoding/hex: odd length hex string''))"
| "hex_DecodeString (a # b # r) =
     (case (fromHexChar a, fromHexChar b) of
        (Some x, Some y) \<Rightarrow>
          (case hex_DecodeString r of
             Inl err \<Rightarrow> Inl err
           | Inr rest \<Rightarrow> Inr (of_nat (x * 16 + y) # rest))
      | _ \<Rightarrow> Inl (Error ''encoding/hex: invalid byte''))"

subsection \<open>\<open>GetFeePerByte\<close>\<close>

text \<open>
  \<open>strconv.Atoi\<close>: an optional sign and decimal digits, at least one, whose value fits
  the 64-bit \<open>int\<close>.
\<close>

definition Atoi :: "string \<Rightarrow> error + int" where
  "Atoi s =
    (let neg = (take 1 s = ''-'');
         body = (if take 1 s = ''-'' \<or> take 1 s = ''+'' then drop 1 s else s)
     in if body = [] then Inl (Error ''invalid syntax'')
        else
          (case parseDigits 0 body of
             None \<Rightarrow> Inl (Error ''invalid syntax'')
           | Some n \<Rightarrow>
               (let v = (if neg then - n else n)
                in if - (2 ^ 63) \<le> v \<and> v < 2 ^ 63 then Inr v else Inl (Error ''value out of range''))))"

definition GetFeePerByte :: "rpc \<Rightarrow> FeeLevel \<Rightarrow> uint64" where
  "GetFeePerByte w feeLevel =
    (let defautlFee = 50 in
     case (case feeLevel of
             PRIOIRTY \<Rightarrow> Some ''1''
           | NORMAL \<Rightarrow> Some ''3''
           | ECONOMIC \<Rightarrow> Some ''6''
           | _ \<Rightarrow> None) of
       None \<Rightarrow> defautlFee
     | Some nBlocks \<Rightarrow>
         (case RawRequest w ''estimatefee'' [nBlocks] of
            Inl err \<Rightarrow> defautlFee
          | Inr resp \<Rightarrow>
              (case Atoi resp of
                 Inl err \<Rightarrow> defautlFee
               | Inr feePerKb \<Rightarrow>
                   if feePerKb \<le> 0 then defautlFee
                   else word_of_int (feePerKb sdiv 1000))))"

subsection \<open>\<open>Multisign\<close>\<close>

text \<open>Lines 646 to 654: one input for each \<open>TransactionInput\<close>, or the first hash error.\<close>

fun newInputs :: "lib \<Rightarrow> TransactionInput list \<Rightarrow> error + TxIn list" where
  "newInputs l [] = Inr []"
| "newInputs l (i # ins) =
     (case NewHashFromStr l (hex_EncodeToString (OutpointHash i)) of
        Inl err \<Rightarrow> Inl err
      | Inr ch \<Rightarrow>
          (case newInputs l ins of
             Inl err \<Rightarrow> Inl err
           | Inr rest \<Rightarrow> Inr (NewTxIn (NewOutPoint ch (OutpointIndex i)) [] [] # rest)))"

definition newOutputs :: "TransactionOutput list \<Rightarrow> TxOut list" where
  "newOutputs outs = map (\<lambda>out. NewTxOut (out_Value out) (ScriptPubKey out)) outs"

text \<open>
  Lines 660 to 673: the estimated fee, divided evenly, comes off every output. The size
  is estimated on the outputs before the subtraction.
\<close>

definition subtractFee :: "lib \<Rightarrow> nat \<Rightarrow> InputType \<Rightarrow> uint64 \<Rightarrow> TxOut list \<Rightarrow> TxOut list" where
  "subtractFee l nIns txType feePerByte txOut =
    (let estimatedSize = EstimateSerializeSize l (of_nat nIns) txOut False txType;
         fee = estimatedSize * feePerByte
     in if length txOut > 0 then
          (let feePerOutput = int_div fee (of_nat (length txOut))
           in map (\<lambda>output. output\<lparr>Value := Value output - feePerOutput\<rparr>) txOut)
        else txOut)"

text \<open>
  Lines 685 to 698: the signature of the first entry whose \<open>InputIndex\<close> is \<open>i\<close>; the nil
  slice when there is none.
\<close>

fun findSig :: "Signature list \<Rightarrow> nat \<Rightarrow> bytes" where
  "findSig [] i = []"
| "findSig (sig # sigs) i = (if unat (InputIndex sig) = i then Signature sig else findSig sigs i)"

definition witnessStack :: "Signature list \<Rightarrow> Signature list \<Rightarrow> bool \<Rightarrow> bytes \<Rightarrow> nat \<Rightarrow> bytes list" where
  "witnessStack sigs1 sigs2 timeLocked redeemScript i =
    (let witness = [[], findSig sigs1 i, findSig sigs2 i];
         witness = (if timeLocked then witness @ [[0x01]] else witness)
     in witness @ [redeemScript])"

text \<open>
  Lines 645 to 707: the transaction \<open>Multisign\<close> assembles. \<open>redeemScript[0]\<close> is read
  with no check of the length: on the empty script the index is out of range.
\<close>

definition Multisign_tx ::
  "lib \<Rightarrow> TransactionInput list \<Rightarrow> TransactionOutput list \<Rightarrow> Signature list \<Rightarrow> Signature list \<Rightarrow>
   bytes \<Rightarrow> uint64 \<Rightarrow> (error + MsgTx) outcome"
where
  "Multisign_tx l ins outs sigs1 sigs2 redeemScript feePerByte =
    (case newInputs l ins of
       Inl err \<Rightarrow> Return (Inl err)
     | Inr txIn \<Rightarrow>
         (let txType = (case LockTimeFromRedeemScript l redeemScript of
                          Inl err \<Rightarrow> P2SH_2of3_Multisig
                        | Inr _ \<Rightarrow> P2SH_Multisig_Timelock_2Sigs);
              txOut = subtractFee l (length ins) txType feePerByte (newOutputs outs);
              tx = InPlaceSort l \<lparr>Version = 1, TxIn = txIn, TxOut = txOut, LockTime = 0\<rparr>
          in case redeemScript of
               [] \<Rightarrow> Panic ''index out of range''
             | b # _ \<Rightarrow>
                 (let timeLocked = (b = OP_IF)
                  in Return (Inr (tx\<lparr>TxIn :=
                       map (\<lambda>(i, input). input\<lparr>Witness := witnessStack sigs1 sigs2 timeLocked redeemScript i\<rparr>)
                         (enumerate 0 (TxIn tx))\<rparr>)))))"

text \<open>Lines 708 to 717: the optional broadcast, and the serialised transaction.\<close>

definition Multisign ::
  "lib \<Rightarrow> rpc \<Rightarrow> TransactionInput list \<Rightarrow> TransactionOutput list \<Rightarrow> Signature list \<Rightarrow> Signature list \<Rightarrow>
   bytes \<Rightarrow> uint64 \<Rightarrow> bool \<Rightarrow> (error + bytes) outcome"
where
  "Multisign l w ins outs sigs1 sigs2 redeemScript feePerByte broadcast =
    (case Multisign_tx l ins outs sigs1 sigs2 redeemScript feePerByte of
       Panic m \<Rightarrow> Panic m
     | Return (Inl err) \<Rightarrow> Return (Inl err)
     | Return (Inr tx) \<Rightarrow>
         (if broadcast then
            (case SendRawTransaction w tx False of
               Inl err \<Rightarrow> Return (Inl err)
             | Inr _ \<Rightarrow> Return (Inr (BtcEncode l tx)))
          else Return (Inr (BtcEncode l tx))))"


subsection \<open>\<open>SweepAddress\<close>\<close>

definition CurrentAddress :: "rpc \<Rightarrow> Address option" where
  "CurrentAddress w = (case GetAccountAddress w ''OpenBazaar'' of Inl _ \<Rightarrow> None | Inr addr \<Rightarrow> Some addr)"

text \<open>
  Lines 799 to 814. With a redeem script, its first byte is read with no check of the
  length; then every input takes the script's lock time as its sequence, and the first
  input of a script without one makes \<open>SweepAddress\<close> return the error.
\<close>

definition checkTimeLocked :: "lib \<Rightarrow> bytes option \<Rightarrow> MsgTx \<Rightarrow> (error + bool \<times> MsgTx) outcome" where
  "checkTimeLocked l redeemScript tx =
    (case redeemScript of
       None \<Rightarrow> Return (Inr (False, tx))
     | Some rs \<Rightarrow>
         (case rs of
            [] \<Rightarrow> Panic ''index out of range''
          | b # _ \<Rightarrow>
              (let timeLocked = (b = OP_IF);
                   tx = (if timeLocked then tx\<lparr>Version := 2\<rparr> else tx)
               in if TxIn tx = [] then Return (Inr (timeLocked, tx))
                  else
                    (case LockTimeFromRedeemScript l rs of
                       Inl err \<Rightarrow> Return (Inl err)
                     | Inr locktime \<Rightarrow>
                         Return (Inr (timeLocked,
                           tx\<lparr>TxIn := map (\<lambda>txIn. txIn\<lparr>Sequence := locktime\<rparr>) (TxIn tx)\<rparr>))))))"

text \<open>
  Lines 816 to 841: the inputs are signed in order, each signature computed on the
  transaction as the earlier signatures left it. \<open>hashes\<close> is the transaction before
  the loop, from which \<open>NewTxSigHashes\<close> is taken.
\<close>

fun signInputs ::
  "lib \<Rightarrow> (OutPoint \<rightharpoonup> bytes) \<Rightarrow> Utxo list \<Rightarrow> PrivateKey \<Rightarrow> bytes option \<Rightarrow> bool \<Rightarrow> MsgTx \<Rightarrow>
   nat list \<Rightarrow> MsgTx \<Rightarrow> (error + MsgTx) outcome"
where
  "signInputs l additionalPrevScripts utxos privKey redeemScript timeLocked hashes [] tx =
     Return (Inr tx)"
| "signInputs l additionalPrevScripts utxos privKey redeemScript timeLocked hashes (i # is) tx =
     (let txIn = TxIn tx ! i in
      case redeemScript of
        None \<Rightarrow>
          (let prevOutScript =
                 (case additionalPrevScripts (PreviousOutPoint txIn) of None \<Rightarrow> [] | Some sc \<Rightarrow> sc)
           in case SignTxOutput l tx i prevOutScript privKey redeemScript (SignatureScript txIn) of
                Inl err \<Rightarrow> Return (Inl (Error ''Failed to sign transaction''))
              | Inr script \<Rightarrow>
                  signInputs l additionalPrevScripts utxos privKey redeemScript timeLocked hashes is
                    (tx\<lparr>TxIn := (TxIn tx)[i := txIn\<lparr>SignatureScript := script\<rparr>]\<rparr>))
      | Some rs \<Rightarrow>
          (if length utxos \<le> i then Panic ''index out of range''
           else
             (case RawTxInWitnessSignature l tx hashes i (utxo_Value (utxos ! i)) rs privKey of
                Inl err \<Rightarrow> Return (Inl err)
              | Inr sig \<Rightarrow>
                  (let witness = (if timeLocked then [sig, []] else [[], sig]);
                       witness = witness @ [rs]
                   in signInputs l additionalPrevScripts utxos privKey redeemScript timeLocked hashes is
                        (tx\<lparr>TxIn := (TxIn tx)[i := txIn\<lparr>Witness := witness\<rparr>]\<rparr>)))))"

definition SweepAddress ::
  "lib \<Rightarrow> rpc \<Rightarrow> Utxo list \<Rightarrow> Address option \<Rightarrow> ExtendedKey \<Rightarrow> bytes option \<Rightarrow> FeeLevel \<Rightarrow>
   (error + bytes) outcome"
where
  "SweepAddress l w utxos address key redeemScript feeLevel =
    (let internalAddr = (if address \<noteq> None then address else CurrentAddress w) in
     case PayToAddrScript l internalAddr of
       Inl err \<Rightarrow> Return (Inl err)
     | Inr script \<Rightarrow>
         (let val = foldl (\<lambda>v u. v + utxo_Value u) 0 utxos;
              inputs = map (\<lambda>u. NewTxIn (Op u) [] []) utxos;
              additionalPrevScripts = foldl (\<lambda>m u. m(Op u \<mapsto> ScriptPubkey u)) Map.empty utxos;
              out = NewTxOut val script;
              txType =
                (case redeemScript of
                   None \<Rightarrow> P2PKH
                 | Some rs \<Rightarrow>
                     (case LockTimeFromRedeemScript l rs of
                        Inl err \<Rightarrow> P2SH_1of2_Multisig
                      | Inr _ \<Rightarrow> P2SH_Multisig_Timelock_1Sig));
              estimatedSize = EstimateSerializeSize l (of_nat (length utxos)) [out] False txType;
              feePerByte = GetFeePerByte w feeLevel;
              fee = estimatedSize * feePerByte;
              outVal = val - fee;
              outVal = (if outVal <s 0 then 0 else outVal);
              tx = InPlaceSort l
                     \<lparr>Version = 1, TxIn = inputs, TxOut = [out\<lparr>Value := outVal\<rparr>], LockTime = 0\<rparr>
          in case ECPrivKey l key of
               Inl err \<Rightarrow> Return (Inl err)
             | Inr privKey \<Rightarrow>
                 (case checkTimeLocked l redeemScript tx of
                    Panic m \<Rightarrow> Panic m
                  | Return (Inl err) \<Rightarrow> Return (Inl err)
                  | Return (Inr (timeLocked, tx)) \<Rightarrow>
                      (case signInputs l additionalPrevScripts utxos privKey redeemScript timeLocked tx
                              [0..<length (TxIn tx)] tx of
                         Panic m \<Rightarrow> Panic m
                       | Return (Inl err) \<Rightarrow> Return (Inl err)
                       | Return (Inr tx) \<Rightarrow>
                           (case SendRawTransaction w tx False of
                              Inl err \<Rightarrow> Return (Inl err)
                            | Inr _ \<Rightarrow> Return (Inr (TxHash l tx)))))))"

subsection \<open>\<open>GenerateMultisigScript\<close>\<close>

text \<open>
  A \<open>time.Duration\<close> is a signed 64-bit count of nanoseconds. \<open>Duration.Hours\<close> is the
  whole hours plus the remaining nanoseconds as a fraction of an hour, both taken with
  Go's truncating \<open>/\<close> and \<open>%\<close>. The quotient and the sum are exact here: their rounding
  in float64 does not change whether the hours truncate to 0, which is what the checks
  of \<open>GenerateMultisigScript\<close> read.
\<close>

definition Hour :: int where
  "Hour = 60 * 60 * 1000000000"

definition Hours :: "int64 \<Rightarrow> float64" where
  "Hours d = of_int (sint d sdiv Hour) + of_int (sint d smod Hour) / (60 * 60 * 1000000000)"

fun ecPubKeys :: "lib \<Rightarrow> ExtendedKey list \<Rightarrow> error + PublicKey list" where
  "ecPubKeys l [] = Inr []"
| "ecPubKeys l (key # keys) =
     (case ECPubKey l key of
        Inl err \<Rightarrow> Inl err
      | Inr ecKey \<Rightarrow>
          (case ecPubKeys l keys of
             Inl err \<Rightarrow> Inl err
           | Inr rest \<Rightarrow> Inr (ecKey # rest)))"

text \<open>The builder calls both branches share: threshold, keys, number of keys, CHECKMULTISIG.\<close>

definition multisigOps :: "lib \<Rightarrow> int64 \<Rightarrow> PublicKey list \<Rightarrow> scriptop list" where
  "multisigOps l threshold ecKeys =
     [AddInt64 threshold] @ map (\<lambda>key. AddData (SerializeCompressed l key)) ecKeys @
     [AddInt64 (of_nat (length ecKeys)), AddOp OP_CHECKMULTISIG]"

text \<open>
  The result is the address and the redeem script, or the error with neither. In the
  message of the second error the two numbers are left as the format has them.
\<close>

definition GenerateMultisigScript ::
  "lib \<Rightarrow> ExtendedKey list \<Rightarrow> int64 \<Rightarrow> int64 \<Rightarrow> ExtendedKey option \<Rightarrow> (error + Address \<times> bytes) outcome"
where
  "GenerateMultisigScript l keys threshold timeout timeoutKey =
    (if 0 < uint32_of_float (Hours timeout) \<and> timeoutKey = None then
       Return (Inl (Error ''Timeout key must be non nil when using an escrow timeout''))
     else if of_nat (length keys) <s threshold then
       Return (Inl (Error (''unable to generate multisig script with %d required signatures '' @
                           ''when there are only %d public keys available'')))
     else
       (case ecPubKeys l keys of
          Inl err \<Rightarrow> Return (Inl err)
        | Inr ecKeys \<Rightarrow>
            (case (if uint32_of_float (Hours timeout) = 0 then
                     Return (Inr (multisigOps l threshold ecKeys))
                   else
                     (case timeoutKey of
                        None \<Rightarrow> Panic ''nil pointer dereference''
                      | Some tk \<Rightarrow>
                          (case ECPubKey l tk of
                             Inl err \<Rightarrow> Return (Inl err)
                           | Inr ecKey \<Rightarrow>
                               (let sequenceLock =
                                      LockTimeToSequence l False (uint32_of_float (Hours timeout * 6))
                                in Return (Inr
                                     ([AddOp OP_IF] @ multisigOps l threshold ecKeys @
                                      [AddOp OP_ELSE, AddInt64 (ucast sequenceLock),
                                       AddOp OP_CHECKSEQUENCEVERIFY, AddOp OP_DROP,
                                       AddData (SerializeCompressed l ecKey),
                                       AddOp OP_CHECKSIG, AddOp OP_ENDIF])))))) of
               Panic m \<Rightarrow> Panic m
             | Return (Inl err) \<Rightarrow> Return (Inl err)
             | Return (Inr ops) \<Rightarrow>
                 (case Script l ops of
                    Inl err \<Rightarrow> Return (Inl err)
                  | Inr redeemScript \<Rightarrow>
                      (case NewAddressWitnessScriptHash l (Sum256 l redeemScript) of
                         Inl err \<Rightarrow> Return (Inl err)
                       | Inr addr \<Rightarrow> Return (Inr (addr, redeemScript)))))))"

subsection \<open>\<open>EstimateSpendFee\<close>\<close>

text \<open>
  Lines 577 to 582: the first unspent output with the input's transaction id and index
  adds its value to \<open>inval\<close>.
\<close>

fun addInputValue :: "lib \<Rightarrow> TxIn \<Rightarrow> ListUnspentResult list \<Rightarrow> int64 \<Rightarrow> int64" where
  "addInputValue l input [] inval = inval"
| "addInputValue l input (utxo # utxos) inval =
     (if TxID utxo = Hash_String l (Hash (PreviousOutPoint input)) \<and>
         Vout utxo = Index (PreviousOutPoint input)
      then inval + int64_of_float (fmul (Amount utxo) 100000000)
      else addInputValue l input utxos inval)"

text \<open>
  \<open>buildTx\<close> selects coins and signs through \<open>coinset\<close>, \<open>txauthor\<close> and \<open>txscript\<close>; the
  transaction it returns, or its error, is a parameter.
\<close>

definition EstimateSpendFee ::
  "lib \<Rightarrow> rpc \<Rightarrow> (int64 \<Rightarrow> Address \<Rightarrow> FeeLevel \<Rightarrow> error + MsgTx) \<Rightarrow> int64 \<Rightarrow> FeeLevel \<Rightarrow> error + uint64"
where
  "EstimateSpendFee l w buildTx amount feeLevel =
    (case DecodeAddress l ''bc1qxtq7ha2l5qg70atpwp3fus84fx3w0v2w4r2my7gt89ll3w0vnlgspu349h'' of
       Inl err \<Rightarrow> Inl err
     | Inr addr \<Rightarrow>
         (case buildTx amount addr feeLevel of
            Inl err \<Rightarrow> Inl err
          | Inr tx \<Rightarrow>
              (let outval = foldl (\<lambda>outval output. outval + Value output) 0 (TxOut tx) in
               case ListUnspent w of
                 Inl err \<Rightarrow> Inl err
               | Inr utxos \<Rightarrow>
                   (let inval = foldl (\<lambda>inval input. addInputValue l input utxos inval) 0 (TxIn tx)
                    in if inval <s outval then
                         Inl (Error ''Error building transaction: inputs less than outputs'')
                       else Inr (inval - outval)))))"

subsection \<open>\<open>BumpFee\<close>\<close>

text \<open>The two errors of \<open>spvwallet\<close> that \<open>BumpFee\<close> returns.\<close>

definition BumpFeeAlreadyConfirmedError :: error where
  "BumpFeeAlreadyConfirmedError = Error ''Transaction is confirmed, cannot bump fee''"

definition BumpFeeNotFoundError :: error where
  "BumpFeeNotFoundError =
     Error (''Transaction either doesn'' @ [CHR 0x27] @ ''t exist or has already been spent'')"

text \<open>Lines 490 to 494: the unspent output handed to \<open>SweepAddress\<close>.\<close>

definition BumpFee_utxo :: "OutPoint \<Rightarrow> ListUnspentResult \<Rightarrow> bytes \<Rightarrow> Utxo" where
  "BumpFee_utxo op u script =
     \<lparr>Op = op, utxo_Value = int64_of_float (fdiv (Amount u) 100000000), ScriptPubkey = script\<rparr>"

text \<open>
  Lines 476 to 503, the loop up to the call of \<open>SweepAddress\<close>: the first unspent output
  of the transaction decides. A confirmed one ends the loop with the error; one whose
  hash, script, address or key cannot be had is passed over; otherwise it is the output
  to sweep, with the key that spends it.
\<close>

fun bumpLoop :: "lib \<Rightarrow> rpc \<Rightarrow> bytes \<Rightarrow> ListUnspentResult list \<Rightarrow> error + Utxo \<times> ExtendedKey" where
  "bumpLoop l w txid [] = Inl BumpFeeNotFoundError"
| "bumpLoop l w txid (u # unspent) =
     (if TxID u = Hash_String l txid then
        (if 0 <s Confirmations u then
           Inl BumpFeeAlreadyConfirmedError
         else
           (case NewHashFromStr l (TxID u) of
              Inl err \<Rightarrow> bumpLoop l w txid unspent
            | Inr h \<Rightarrow>
                (case hex_DecodeString (unspent_ScriptPubKey u) of
                   Inl err \<Rightarrow> bumpLoop l w txid unspent
                 | Inr script \<Rightarrow>
                     (let utxo = BumpFee_utxo (NewOutPoint h (Vout u)) u script in
                      case DecodeAddress l (Address u) of
                        Inl err \<Rightarrow> bumpLoop l w txid unspent
                      | Inr addr \<Rightarrow>
                          (case DumpPrivKey w addr of
                             Inl err \<Rightarrow> bumpLoop l w txid unspent
                           | Inr key \<Rightarrow> Inr (utxo, NewExtendedKey l key))))))
      else bumpLoop l w txid unspent)"

text \<open>Lines 464 to 503: what \<open>BumpFee\<close> sweeps, or the error it returns before sweeping.\<close>

definition BumpFee_select :: "lib \<Rightarrow> rpc \<Rightarrow> bytes \<Rightarrow> error + Utxo \<times> ExtendedKey" where
  "BumpFee_select l w txid =
    (case GetTransaction w txid False of
       Inl err \<Rightarrow> Inl err
     | Inr tx \<Rightarrow>
         (if 0 <s tx_Confirmations tx then
            Inl BumpFeeAlreadyConfirmedError
          else
            (case ListUnspent w of
               Inl err \<Rightarrow> Inl err
             | Inr unspent \<Rightarrow> bumpLoop l w txid unspent)))"

definition BumpFee :: "lib \<Rightarrow> rpc \<Rightarrow> bytes \<Rightarrow> (error + bytes) outcome" where
  "BumpFee l w txid =
    (case BumpFee_select l w txid of
       Inl err \<Rightarrow> Return (Inl err)
     | Inr (utxo, hdKey) \<Rightarrow> SweepAddress l w [utxo] None hdKey None FEE_BUMP)"

text \<open>
  The reading of \<open>EstimateSpendFee\<close> under which an input is worth
  \<open>int64(u.Amount / 100000000)\<close>, for comparison with \<open>addInputValue\<close>.
\<close>

definition divided_input_value :: "ListUnspentResult \<Rightarrow> int64" where
  "divided_input_value u = int64_of_float (fdiv (Amount u) 100000000)"


subsection \<open>An instance of the libraries and of the daemon\<close>

text \<open>
  For evaluating the wallet on concrete inputs. \<open>test_lib\<close> follows the libraries on the
  inputs used below: \<open>NewHashFromStr\<close> refuses more than 64 hex digits and otherwise
  gives the 32 bytes, padded and reversed; \<open>Hash.String\<close> is the hex of the reversed
  hash; \<open>LockTimeFromRedeemScript\<close> refuses a script shorter than 113 bytes;
  \<open>LockTimeToSequence\<close> of a number of blocks is that number; \<open>InPlaceSort\<close> is applied to
  transactions already in order; a key whose serialisation starts with 02 or 03 is a
  public key and has no private key. Signatures, hashes, sizes and encodings are stand-ins.
\<close>

definition hexVal :: "char \<Rightarrow> nat" where
  "hexVal c = (if (of_char c :: nat) \<le> 57 then of_char c - 48 else of_char c - 87)"

fun hexDecode :: "string \<Rightarrow> bytes" where
  "hexDecode (a # b # r) = of_nat (hexVal a * 16 + hexVal b) # hexDecode r"
| "hexDecode _ = []"

definition pushOp :: "scriptop \<Rightarrow> bytes" where
  "pushOp op =
    (case op of
       AddOp b \<Rightarrow> [b]
     | AddInt64 n \<Rightarrow>
         (if n = 0 then [0]
          else if n \<le> 16 then [0x50 + ucast n]
          else 8 # map (\<lambda>k. ucast (drop_bit (8 * k) n)) [0..<8])
     | AddData d \<Rightarrow> of_nat (length d) # d)"

definition test_lib :: lib where
  "test_lib =
    \<lparr>NewHashFromStr = (\<lambda>s. if 64 < length s then Inl (Error ''max hash string length is 64 bytes'')
                            else Inr (rev (replicate (32 - length s div 2) 0 @ hexDecode s))),
     Hash_String = (\<lambda>h. hex_EncodeToString (rev h)),
     LockTimeFromRedeemScript = (\<lambda>rs. if length rs < 113 then Inl (Error ''Redeem script invalid length'')
                                      else Inr 144),
     EstimateSerializeSize = (\<lambda>n outs change ty. 10 + 148 * n + 34 * of_nat (length outs)),
     InPlaceSort = (\<lambda>tx. tx),
     BtcEncode = (\<lambda>tx. concat (map (\<lambda>i. concat (Witness i)) (TxIn tx))),
     TxHash = (\<lambda>tx. concat (map (\<lambda>i. Hash (PreviousOutPoint i)) (TxIn tx))),
     PayToAddrScript = (\<lambda>a. case a of None \<Rightarrow> Inl (Error ''unsupported address type'')
                                   | Some s \<Rightarrow> Inr (map of_char s)),
     SignTxOutput = (\<lambda>tx i prev k rs sc. Inr k),
     RawTxInWitnessSignature = (\<lambda>tx hashes i v rs k. Inr k),
     ECPrivKey = (\<lambda>k. if take 1 k = [0x02] \<or> take 1 k = [0x03]
                      then Inl (Error ''unable to create private keys from a public extended key'')
                      else Inr k),
     ECPubKey = (\<lambda>k. Inr k),
     SerializeCompressed = (\<lambda>k. k),
     LockTimeToSequence = (\<lambda>isSeconds locktime. locktime),
     Script = (\<lambda>ops. Inr (concat (map pushOp ops))),
     Sum256 = (\<lambda>b. take 32 (b @ replicate 32 0)),
     NewAddressWitnessScriptHash = (\<lambda>wp. Inr (hex_EncodeToString wp)),
     DecodeAddress = (\<lambda>s. Inr s),
     NewExtendedKey = (\<lambda>k. k)\<rparr>"

text \<open>
  Two inputs in order, one output, and the signatures of two parties, the first party's
  listed out of order.
\<close>

definition test_ins :: "TransactionInput list" where
  "test_ins = [\<lparr>OutpointHash = [0x01], OutpointIndex = 0, in_Value = 100000\<rparr>,
               \<lparr>OutpointHash = [0x02], OutpointIndex = 1, in_Value = 50000\<rparr>]"

definition test_outs :: "TransactionOutput list" where
  "test_outs = [\<lparr>ScriptPubKey = [0x00, 0x20], out_Value = 140000\<rparr>]"

definition test_sigs1 :: "Signature list" where
  "test_sigs1 = [\<lparr>InputIndex = 1, Signature = [0xB1]\<rparr>, \<lparr>InputIndex = 0, Signature = [0xA1]\<rparr>]"

definition test_sigs2 :: "Signature list" where
  "test_sigs2 = [\<lparr>InputIndex = 0, Signature = [0xA2]\<rparr>, \<lparr>InputIndex = 1, Signature = [0xB2]\<rparr>]"

text \<open>
  A daemon that answers \<open>estimatefee\<close> with 50000, lists one unspent output of 0.29
  coin, unconfirmed, knows its key and accepts every transaction.
\<close>

definition test_unspent :: ListUnspentResult where
  "test_unspent =
     \<lparr>TxID = hex_EncodeToString (replicate 31 0 @ [1]), Vout = 0, Address = ''PHoReAddress'',
      unspent_ScriptPubKey = ''76a9'', Amount = 29 / 100, Confirmations = 0\<rparr>"

definition test_rpc :: rpc where
  "test_rpc =
    \<lparr>RawRequest = (\<lambda>method params. if method = ''estimatefee'' then Inr ''50000''
                                   else Inl (Error ''method not found'')),
     ListUnspent = Inr [test_unspent],
     SendRawTransaction = (\<lambda>tx allowHighFees. Inr (concat (map (\<lambda>i. Hash (PreviousOutPoint i)) (TxIn tx)))),
     GetAccountAddress = (\<lambda>account. Inr ''PHoReAddress''),
     GetTransaction = (\<lambda>txid includeWatchOnly. Inr \<lparr>tx_Confirmations = 0\<rparr>),
     DumpPrivKey = (\<lambda>addr. Inr [0x01])\<rparr>"


text \<open>
  A \<open>buildTx\<close> that spends that output: the amount to the address, 8989999 back as
  change.
\<close>

definition test_buildTx :: "int64 \<Rightarrow> Address \<Rightarrow> FeeLevel \<Rightarrow> error + MsgTx" where
  "test_buildTx amount addr feeLevel =
     Inr \<lparr>Version = 1,
          TxIn = [NewTxIn (NewOutPoint (1 # replicate 31 0) 0) [] []],
          TxOut = [NewTxOut 8989999 [0x76, 0xa9], NewTxOut amount (map of_char addr)],
          LockTime = 0\<rparr>"


section \<open>The protocol service (net/service)\<close>

text \<open>
  An inbound stream: the remote peer, the results of the successive \<open>ReadMsg\<close> calls (a
  message or an error; after the last of them the stream is at its end and \<open>ReadMsg\<close>
  fails), whether \<open>WriteMsg\<close> fails, what the service has done on the stream so far, in
  order, and whether the stream is closed.
\<close>

type_synonym peerID = string

record Message =
  MessageType :: nat
  Payload :: bytes

datatype event = Bind peerID | Read | Handle Message | Write Message

record Stream =
  RemotePeer :: peerID
  incoming :: "(error + Message) list"
  writeFails :: bool
  events :: "event list"
  closed :: bool

text \<open>
  The ban manager and the dispatch table belong to the node; they are parameters. A
  handler returns an error, no reply, or a reply.
\<close>

record OpenBazaarService =
  IsBanned :: "peerID \<Rightarrow> bool"
  HandlerForMsgType :: "nat \<Rightarrow> (peerID \<Rightarrow> Message \<Rightarrow> error + Message option) option"

text \<open>
  Modelled from the spec: \<open>messageSenderForPeer\<close> is not in the source at hand. By the
  design of the message sender pool an accepted inbound stream is bound into the sender
  slot of its peer; the binding is recorded as an event of the stream.
\<close>

definition messageSenderForPeer :: "peerID \<Rightarrow> Stream \<Rightarrow> Stream" where
  "messageSenderForPeer p s = s\<lparr>events := events s @ [Bind p]\<rparr>"

text \<open>
  The \<open>for\<close> loop of \<open>handleNewMessage\<close>, on the reads still to come: it returns the events
  of the stream when the loop is left.
\<close>

fun messageLoop ::
  "OpenBazaarService \<Rightarrow> peerID \<Rightarrow> bool \<Rightarrow> (error + Message) list \<Rightarrow> event list \<Rightarrow> event list"
where
  "messageLoop service mPeer werr [] ev = ev @ [Read]"
| "messageLoop service mPeer werr (r # rs) ev =
     (case r of
        Inl err \<Rightarrow> ev @ [Read]
      | Inr pmes \<Rightarrow>
          (case HandlerForMsgType service (MessageType pmes) of
             None \<Rightarrow> ev @ [Read]
           | Some handler \<Rightarrow>
               (case handler mPeer pmes of
                  Inl err \<Rightarrow> ev @ [Read, Handle pmes]
                | Inr None \<Rightarrow> messageLoop service mPeer werr rs (ev @ [Read, Handle pmes])
                | Inr (Some rpmes) \<Rightarrow>
                    (if werr then ev @ [Read, Handle pmes, Write rpmes]
                     else messageLoop service mPeer werr rs (ev @ [Read, Handle pmes, Write rpmes])))))"

text \<open>
  \<open>defer s.Close()\<close> stands after the ban check: the stream is closed on every return
  that follows it, and on none before it.
\<close>

definition handleNewMessage :: "OpenBazaarService \<Rightarrow> Stream \<Rightarrow> Stream" where
  "handleNewMessage service s =
    (let mPeer = RemotePeer s in
     if IsBanned service mPeer then s
     else
       (let s = messageSenderForPeer mPeer s
        in s\<lparr>events := messageLoop service mPeer (writeFails s) (incoming s) (events s),
             closed := True\<rparr>))"


text \<open>A service that bans one peer and answers message type 1 with the message itself.\<close>

definition test_service :: OpenBazaarService where
  "test_service =
    \<lparr>IsBanned = (\<lambda>p. p = ''QmBanned''),
     HandlerForMsgType = (\<lambda>t. if t = 1 then Some (\<lambda>p pmes. Inr (Some pmes)) else None)\<rparr>"


section \<open>Properties of the exchange-rate decoder\<close>

lemma parseDecimal_sample: "parseDecimal ''0.542017'' = Inr (542017 / 1000000)"
  by (simp add: parseDecimal_def isDigit_def digitVal_def)

text \<open>
  Claim C5. \<open>CMCDecoder.decode\<close> on the decoded empty array returns the error
  \<open>could not get currency\<close> and leaves the cache as it was. On the sample payload, whose
  first element has \<open>price_usd\<close> = \<open>0.542017\<close>, it returns nil and the cache then maps
  \<open>PHR\<close> to the number \<open>strconv.ParseFloat\<close> reads from that literal, every other
  entry unchanged.
\<close>

theorem decode_empty_and_sample:
  "decode pf (JArray []) cache = (Return (Some (Error ''could not get currency'')), cache) \<and>
   (pf ''0.542017'' = Inr v \<longrightarrow>
      decode pf sample_payload cache = (Return None, cache(''PHR'' \<mapsto> v)))"
  by (simp add: decode_def sample_payload_def)

theorem decode_empty_and_sample_witness:
  "parseDecimal ''0.542017'' = Inr (542017 / 1000000) \<and>
   decode parseDecimal (JArray []) Map.empty =
     (Return (Some (Error ''could not get currency'')), Map.empty) \<and>
   decode parseDecimal sample_payload Map.empty = (Return None, [''PHR'' \<mapsto> 542017 / 1000000])"
  using decode_empty_and_sample [of parseDecimal Map.empty "542017 / 1000000"] parseDecimal_sample
  by simp

text \<open>
  Claim C8. \<open>CMCDecoder.decode\<close> is not total: on a top-level JSON object, and on any
  value that is not an array, the assertion \<open>dat.([]interface{})\<close> panics; on a non-empty
  array whose first element is not an object, \<open>data[0].(map[string]interface{})\<close>
  panics. In both cases no error is returned and the cache is not written.
\<close>

theorem decode_panics:
  "(\<exists>m. decode pf (JObject kvs) cache = (Panic m, cache)) \<and>
   ((\<forall>data. dat \<noteq> JArray data) \<longrightarrow> (\<exists>m. decode pf dat cache = (Panic m, cache))) \<and>
   ((\<forall>priceInfo. x \<noteq> JObject priceInfo) \<longrightarrow>
      (\<exists>m. decode pf (JArray (x # xs)) cache = (Panic m, cache)))"
  by (cases dat; cases x) (simp_all add: decode_def)

theorem decode_panics_witness:
  "(\<forall>data. (JNil :: rat json) \<noteq> JArray data) \<and>
   (\<forall>priceInfo. (JString ''phore'' :: rat json) \<noteq> JObject priceInfo) \<and>
   (\<exists>m. decode parseDecimal (JObject [(''price_usd'', JString ''0.542017'')]) Map.empty =
          (Panic m, Map.empty)) \<and>
   (\<exists>m. decode parseDecimal JNil Map.empty = (Panic m, Map.empty)) \<and>
   (\<exists>m. decode parseDecimal (JArray [JString ''phore'']) Map.empty = (Panic m, Map.empty))"
  using decode_panics [of parseDecimal "[(''price_usd'', JString ''0.542017'')]" Map.empty
      JNil "JString ''phore''" "[]"]
  by simp


section \<open>Properties of migration 5 to 6\<close>

subsection \<open>The two files have different paths\<close>

lemma splitSlash_not_Nil: "splitSlash s \<noteq> []"
  by (induction s) (auto split: list.splits)

lemma splitSlash_append: "splitSlash (r @ CHR ''/'' # n) = splitSlash r @ splitSlash n"
proof (induction r)
  case Nil
  show ?case by simp
next
  case (Cons c r)
  obtain w ws where ws: "splitSlash r = w # ws"
    using splitSlash_not_Nil [of r] by (cases "splitSlash r") auto
  with Cons show ?case by simp
qed

lemma splitSlash_plain: "CHR ''/'' \<notin> set n \<Longrightarrow> splitSlash n = [n]"
  by (induction n) auto

lemma joinSlash_snoc: "joinSlash (st @ [n]) = slashed st @ n"
  by (induction st rule: joinSlash.induct) (simp_all add: slashed_def)

lemma cleanStep_name:
  "n \<noteq> [] \<Longrightarrow> n \<noteq> ''.'' \<Longrightarrow> n \<noteq> ''..'' \<Longrightarrow> cleanStep rooted st n = st @ [n]"
  by (simp add: cleanStep_def)

lemma path_Join_name:
  assumes "n \<noteq> []" "CHR ''/'' \<notin> set n" "n \<noteq> ''.''" "n \<noteq> ''..''"
  shows "path_Join r n = dirPrefix r @ n"
proof (cases "r = []")
  case True
  have "hd n \<noteq> CHR ''/''"
    using assms(1,2) by (cases n) auto
  with True show ?thesis
    using assms
    by (simp add: path_Join_def Clean_def dirPrefix_def splitSlash_plain cleanStep_name)
next
  case False
  then show ?thesis
    using assms
    by (simp add: path_Join_def Clean_def Let_def dirPrefix_def splitSlash_append
        splitSlash_plain cleanStep_name joinSlash_snoc)
qed

lemma repover_path: "path_Join r ''repover'' = dirPrefix r @ ''repover''"
  by (rule path_Join_name) simp_all

lemma swarm_key_path: "path_Join r ''swarm.key'' = dirPrefix r @ ''swarm.key''"
  by (rule path_Join_name) simp_all

lemma paths_distinct: "path_Join r ''repover'' \<noteq> path_Join r ''swarm.key''"
  by (simp add: repover_path swarm_key_path)

lemma path_dot:
  "path_Join ''./'' ''repover'' = ''repover''"
  "path_Join ''./'' ''swarm.key'' = ''swarm.key''"
  by (simp_all add: path_Join_def Clean_def cleanStep_def)

lemma length_swarmKeyData: "length swarmKeyData = 95"
  by (simp add: swarmKeyData_def)

subsection \<open>\<open>Up\<close> and \<open>Down\<close> on an empty repository\<close>

text \<open>
  Claim C4, as stated, fails on the length of the key: after \<open>Up\<close> on the empty directory
  \<open>./\<close> the file \<open>swarm.key\<close> does not hold a blob of 92 bytes.
\<close>

theorem swarm_key_92_counterexample:
  "map_option length (files (snd (Up empty_repo ''./'' ''letmein'' False)) ''swarm.key'') \<noteq> Some 92"
  by (simp add: path_dot Up_def os_Create_def ioutil_WriteFile_def file_Write_def empty_repo_def
      length_swarmKeyData)

text \<open>
  Claim C4, amended. \<open>Up\<close> on an empty repository directory returns nil and leaves exactly
  two files: \<open>repover\<close> containing the single byte \<open>6\<close> and \<open>swarm.key\<close> containing the
  fixed preshared-key blob, which is 95 bytes long. \<open>Down\<close> afterwards returns nil, removes
  \<open>swarm.key\<close> and leaves \<open>repover\<close> containing the single byte \<open>5\<close>.
\<close>

theorem migration005_Up_Down:
  "(case Up empty_repo repoPath dbPassword testnet of
      (err1, s1) \<Rightarrow>
        err1 = None \<and>
        dom (files s1) = {path_Join repoPath ''repover'', path_Join repoPath ''swarm.key''} \<and>
        files s1 (path_Join repoPath ''repover'') = Some ''6'' \<and>
        files s1 (path_Join repoPath ''swarm.key'') = Some swarmKeyData \<and>
        length swarmKeyData = 95 \<and>
        (case Down s1 repoPath dbPassword testnet of
           (err2, s2) \<Rightarrow>
             err2 = None \<and>
             dom (files s2) = {path_Join repoPath ''repover''} \<and>
             files s2 (path_Join repoPath ''swarm.key'') = None \<and>
             files s2 (path_Join repoPath ''repover'') = Some ''5''))"
  using paths_distinct [of repoPath] paths_distinct [of repoPath, symmetric]
  by (auto simp add: Up_def Down_def os_Create_def ioutil_WriteFile_def file_Write_def
      os_Remove_def empty_repo_def length_swarmKeyData)

text \<open>
  Claim C9. \<open>Up\<close> is not atomic on failure. It truncates \<open>repover\<close> before it writes
  \<open>swarm.key\<close>: when \<open>repover\<close> exists and can be opened, and the write of \<open>swarm.key\<close>
  fails (at the open or at the write), \<open>Up\<close> returns an error and \<open>repover\<close> is left
  empty, the version byte it held gone.
\<close>

theorem Up_not_atomic:
  assumes "files s (path_Join repoPath ''repover'') = Some v"
      and "path_Join repoPath ''repover'' \<notin> nowrite s"
      and "path_Join repoPath ''swarm.key'' \<in> nowrite s \<union> wfail s"
  shows "\<exists>err s'. Up s repoPath dbPassword testnet = (Some err, s') \<and>
           files s' (path_Join repoPath ''repover'') = Some []"
  using assms paths_distinct [of repoPath] paths_distinct [of repoPath, symmetric]
  by (auto simp add: Up_def os_Create_def ioutil_WriteFile_def file_Write_def)

theorem Up_not_atomic_witness:
  "files \<lparr>files = [''repover'' \<mapsto> ''5''], nowrite = {''swarm.key''}, wfail = {}\<rparr>
     (path_Join ''./'' ''repover'') = Some ''5'' \<and>
   path_Join ''./'' ''repover'' \<notin>
     nowrite \<lparr>files = [''repover'' \<mapsto> ''5''], nowrite = {''swarm.key''}, wfail = {}\<rparr> \<and>
   path_Join ''./'' ''swarm.key'' \<in>
     nowrite \<lparr>files = [''repover'' \<mapsto> ''5''], nowrite = {''swarm.key''}, wfail = {}\<rparr> \<and>
   (\<exists>err s'. Up \<lparr>files = [''repover'' \<mapsto> ''5''], nowrite = {''swarm.key''}, wfail = {}\<rparr>
                ''./'' ''letmein'' False = (Some err, s') \<and>
              files s' ''repover'' = Some [])"
  using Up_not_atomic [of "\<lparr>files = [''repover'' \<mapsto> ''5''], nowrite = {''swarm.key''}, wfail = {}\<rparr>"
      "''./''" "''5''" "''letmein''" False]
  by (simp add: path_dot)


section \<open>Properties of the wallet\<close>

subsection \<open>The fee oracle\<close>

text \<open>
  Claim C3, as stated, fails: with a daemon that answers \<open>estimatefee\<close> with 50000 the
  priority level gives 50, and the bump level gives 50 as well, not 51.
\<close>

theorem fee_bump_counterexample:
  "GetFeePerByte test_rpc FEE_BUMP \<noteq> GetFeePerByte test_rpc PRIOIRTY + 1"
  by (simp add: GetFeePerByte_def test_rpc_def Atoi_def isDigit_def digitVal_def)

text \<open>
  Claim C3, amended. The \<open>switch\<close> names the priority, normal and economic levels only;
  the bump level falls to its \<open>default\<close> branch. For every state of the fee oracle,
  \<open>GetFeePerByte\<close> at the bump level returns the default fee of 50 satoshi per byte,
  whatever the daemon would answer.
\<close>

theorem GetFeePerByte_FEE_BUMP: "GetFeePerByte w FEE_BUMP = 50"
  by (simp add: GetFeePerByte_def)

subsection \<open>The witness stacks of \<open>Multisign\<close>\<close>

lemma findSig_find:
  "findSig sigs i =
     (case find (\<lambda>s. unat (InputIndex s) = i) sigs of None \<Rightarrow> [] | Some s \<Rightarrow> Signature s)"
  by (induction sigs) auto

lemma witnessStack_eq:
  "witnessStack sigs1 sigs2 timeLocked redeemScript i =
    (if timeLocked then [[], findSig sigs1 i, findSig sigs2 i, [0x01], redeemScript]
     else [[], findSig sigs1 i, findSig sigs2 i, redeemScript])"
  by (simp add: witnessStack_def)

lemma Multisign_tx_witness:
  assumes "Multisign_tx l ins outs sigs1 sigs2 redeemScript feePerByte = Return (Inr tx)"
      and "i < length (TxIn tx)"
  shows "Witness (TxIn tx ! i) =
           witnessStack sigs1 sigs2 (take 1 redeemScript = [OP_IF]) redeemScript i"
  using assms
  by (auto simp add: Multisign_tx_def Let_def nth_enumerate_eq split: sum.splits list.splits)

text \<open>
  Claim C1. Whenever \<open>Multisign\<close> returns a serialised transaction, it is the encoding of
  a transaction in which the witness of the input at each position \<open>i\<close> is exactly
  \<open>[empty, sig1, sig2, redeemScript]\<close> when the redeem script does not begin with
  \<open>OP_IF\<close>, and exactly \<open>[empty, sig1, sig2, 0x01, redeemScript]\<close> when it does; \<open>sig1\<close>
  and \<open>sig2\<close> are the signatures of the first entries of the two sets whose \<open>InputIndex\<close>
  is \<open>i\<close> (the nil slice for a set with no such entry).
\<close>

theorem Multisign_witness:
  assumes "Multisign l w ins outs sigs1 sigs2 redeemScript feePerByte broadcast = Return (Inr raw)"
  shows "\<exists>tx. Multisign_tx l ins outs sigs1 sigs2 redeemScript feePerByte = Return (Inr tx) \<and>
           raw = BtcEncode l tx \<and>
           (\<forall>i < length (TxIn tx).
              Witness (TxIn tx ! i) =
                (let sig1 = (case find (\<lambda>s. unat (InputIndex s) = i) sigs1 of
                               None \<Rightarrow> [] | Some s \<Rightarrow> Signature s);
                     sig2 = (case find (\<lambda>s. unat (InputIndex s) = i) sigs2 of
                               None \<Rightarrow> [] | Some s \<Rightarrow> Signature s)
                 in if take 1 redeemScript = [OP_IF]
                    then [[], sig1, sig2, [0x01], redeemScript]
                    else [[], sig1, sig2, redeemScript]))"
proof -
  from assms obtain tx where
    tx: "Multisign_tx l ins outs sigs1 sigs2 redeemScript feePerByte = Return (Inr tx)"
    and raw: "raw = BtcEncode l tx"
    by (auto simp add: Multisign_def split: outcome.splits sum.splits if_splits)
  have "\<forall>i < length (TxIn tx).
          Witness (TxIn tx ! i) =
            witnessStack sigs1 sigs2 (take 1 redeemScript = [OP_IF]) redeemScript i"
    using Multisign_tx_witness [OF tx] by blast
  then show ?thesis
    using tx raw by (auto simp add: witnessStack_eq findSig_find Let_def)
qed

lemma test_hashes:
  "NewHashFromStr test_lib (hex_EncodeToString [0x01]) = Inr (1 # replicate 31 0)"
  "NewHashFromStr test_lib (hex_EncodeToString [0x02]) = Inr (2 # replicate 31 0)"
  by (simp_all add: test_lib_def hex_EncodeToString_def hexDigit_def hexVal_def)

lemma test_Multisign_tx:
  "Multisign_tx test_lib test_ins test_outs test_sigs1 test_sigs2 [OP_IF, 0x52] 1 =
     Return (Inr \<lparr>Version = 1,
       TxIn = [\<lparr>PreviousOutPoint = \<lparr>Hash = 1 # replicate 31 0, Index = 0\<rparr>, SignatureScript = [],
                 Witness = [[], [0xA1], [0xA2], [0x01], [OP_IF, 0x52]], Sequence = 0xffffffff\<rparr>,
               \<lparr>PreviousOutPoint = \<lparr>Hash = 2 # replicate 31 0, Index = 1\<rparr>, SignatureScript = [],
                 Witness = [[], [0xB1], [0xB2], [0x01], [OP_IF, 0x52]], Sequence = 0xffffffff\<rparr>],
       TxOut = [\<lparr>Value = 139660, PkScript = [0x00, 0x20]\<rparr>], LockTime = 0\<rparr>)"
  unfolding Multisign_tx_def test_ins_def test_outs_def
  apply (simp add: test_hashes NewTxIn_def NewOutPoint_def newOutputs_def NewTxOut_def)
  apply (simp add: test_lib_def subtractFee_def int_div_def signed_divide_int_def
      witnessStack_def test_sigs1_def test_sigs2_def OP_IF_def)
  done

theorem Multisign_witness_witness:
  "Multisign test_lib test_rpc test_ins test_outs test_sigs1 test_sigs2 [OP_IF, 0x52] 1 False =
     Return (Inr [0xA1, 0xA2, 0x01, 0x63, 0x52, 0xB1, 0xB2, 0x01, 0x63, 0x52]) \<and>
   (\<exists>tx. Multisign_tx test_lib test_ins test_outs test_sigs1 test_sigs2 [OP_IF, 0x52] 1 =
           Return (Inr tx) \<and>
         length (TxIn tx) = 2 \<and>
         Witness (TxIn tx ! 0) = [[], [0xA1], [0xA2], [0x01], [OP_IF, 0x52]] \<and>
         Witness (TxIn tx ! 1) = [[], [0xB1], [0xB2], [0x01], [OP_IF, 0x52]])"
proof -
  have h: "Multisign test_lib test_rpc test_ins test_outs test_sigs1 test_sigs2 [OP_IF, 0x52] 1 False =
     Return (Inr [0xA1, 0xA2, 0x01, 0x63, 0x52, 0xB1, 0xB2, 0x01, 0x63, 0x52])"
    by (simp add: Multisign_def test_Multisign_tx) (simp add: test_lib_def OP_IF_def)
  from Multisign_witness [OF h] obtain tx where
    tx: "Multisign_tx test_lib test_ins test_outs test_sigs1 test_sigs2 [OP_IF, 0x52] 1 = Return (Inr tx)"
    and w: "\<forall>i < length (TxIn tx).
              Witness (TxIn tx ! i) =
                (let sig1 = (case find (\<lambda>s. unat (InputIndex s) = i) test_sigs1 of
                               None \<Rightarrow> [] | Some s \<Rightarrow> Signature s);
                     sig2 = (case find (\<lambda>s. unat (InputIndex s) = i) test_sigs2 of
                               None \<Rightarrow> [] | Some s \<Rightarrow> Signature s)
                 in if take 1 [OP_IF, 0x52] = [OP_IF]
                    then [[], sig1, sig2, [0x01], [OP_IF, 0x52]]
                    else [[], sig1, sig2, [OP_IF, 0x52]])"
    by blast
  have len: "length (TxIn tx) = 2"
    using tx by (auto simp add: test_Multisign_tx)
  have w0: "Witness (TxIn tx ! 0) = [[], [0xA1], [0xA2], [0x01], [OP_IF, 0x52]]"
    using w [rule_format, of 0] len by (simp add: test_sigs1_def test_sigs2_def)
  have w1: "Witness (TxIn tx ! 1) = [[], [0xB1], [0xB2], [0x01], [OP_IF, 0x52]]"
    using w [rule_format, of 1] len by (simp add: test_sigs1_def test_sigs2_def)
  show ?thesis
    using h tx len w0 w1 by blast
qed

subsection \<open>The empty redeem script\<close>

lemma length_hex_EncodeToString: "length (hex_EncodeToString src) = 2 * length src"
  by (induction src) (simp_all add: hex_EncodeToString_def)

lemma newInputs_ok:
  "(\<forall>i \<in> set ins. \<exists>ch. NewHashFromStr l (hex_EncodeToString (OutpointHash i)) = Inr ch) \<Longrightarrow>
   \<exists>txIn. newInputs l ins = Inr txIn"
  by (induction ins) auto

lemma Multisign_tx_empty_script:
  "Multisign_tx l ins outs sigs1 sigs2 [] feePerByte =
     (case newInputs l ins of Inl err \<Rightarrow> Return (Inl err) | Inr _ \<Rightarrow> Panic ''index out of range'')"
  by (simp add: Multisign_tx_def Let_def split: sum.splits)

lemma Multisign_empty_script:
  "Multisign l w ins outs sigs1 sigs2 [] feePerByte broadcast =
     (case newInputs l ins of Inl err \<Rightarrow> Return (Inl err) | Inr _ \<Rightarrow> Panic ''index out of range'')"
  by (simp add: Multisign_def Multisign_tx_empty_script split: sum.splits)

lemma checkTimeLocked_empty: "checkTimeLocked l (Some []) tx = Panic ''index out of range''"
  by (simp add: checkTimeLocked_def)

lemma SweepAddress_empty_script:
  "SweepAddress l w utxos address key (Some []) feeLevel =
     (case PayToAddrScript l (if address \<noteq> None then address else CurrentAddress w) of
        Inl err \<Rightarrow> Return (Inl err)
      | Inr _ \<Rightarrow>
          (case ECPrivKey l key of
             Inl err \<Rightarrow> Return (Inl err)
           | Inr _ \<Rightarrow> Panic ''index out of range''))"
  by (simp add: SweepAddress_def Let_def checkTimeLocked_empty split: sum.splits)

text \<open>
  Claim C10, as stated, fails: with the empty redeem script either operation can still
  return an error, that of a step before the read. \<open>Multisign\<close> returns the hash error
  for an outpoint hash of 33 bytes, \<open>SweepAddress\<close> the key error for a public key.
\<close>

theorem empty_redeemScript_counterexample:
  "Multisign test_lib test_rpc [\<lparr>OutpointHash = replicate 33 0, OutpointIndex = 0, in_Value = 0\<rparr>]
     [] [] [] [] 1 False = Return (Inl (Error ''max hash string length is 64 bytes'')) \<and>
   SweepAddress test_lib test_rpc [] (Some ''addr'') [0x02, 0x01] (Some []) NORMAL =
     Return (Inl (Error ''unable to create private keys from a public extended key''))"
  by (simp add: Multisign_empty_script SweepAddress_empty_script test_lib_def
      length_hex_EncodeToString)

text \<open>
  Claim C10, amended. \<open>Multisign\<close> and \<open>SweepAddress\<close> read \<open>redeemScript[0]\<close> with no
  check of the length. For the empty redeem script, once the steps before the read have
  succeeded (every outpoint hash parses, in \<open>Multisign\<close>; the script of the destination
  address and the private key are obtained, in \<open>SweepAddress\<close>), the access is out of
  range and the operation panics: it returns no error. In no case does either operation
  return a result for the empty redeem script.
\<close>

theorem empty_redeemScript_panics:
  "((\<forall>i \<in> set ins. \<exists>ch. NewHashFromStr l (hex_EncodeToString (OutpointHash i)) = Inr ch) \<longrightarrow>
      Multisign l w ins outs sigs1 sigs2 [] feePerByte broadcast = Panic ''index out of range'') \<and>
   ((\<exists>script. PayToAddrScript l (if address \<noteq> None then address else CurrentAddress w) = Inr script) \<and>
    (\<exists>privKey. ECPrivKey l key = Inr privKey) \<longrightarrow>
      SweepAddress l w utxos address key (Some []) feeLevel = Panic ''index out of range'') \<and>
   Multisign l w ins outs sigs1 sigs2 [] feePerByte broadcast \<noteq> Return (Inr raw) \<and>
   SweepAddress l w utxos address key (Some []) feeLevel \<noteq> Return (Inr txid)"
proof (intro conjI impI)
  assume "\<forall>i \<in> set ins. \<exists>ch. NewHashFromStr l (hex_EncodeToString (OutpointHash i)) = Inr ch"
  then obtain txIn where "newInputs l ins = Inr txIn"
    using newInputs_ok by blast
  then show "Multisign l w ins outs sigs1 sigs2 [] feePerByte broadcast = Panic ''index out of range''"
    by (simp add: Multisign_empty_script)
next
  assume "(\<exists>script. PayToAddrScript l (if address \<noteq> None then address else CurrentAddress w) = Inr script) \<and>
          (\<exists>privKey. ECPrivKey l key = Inr privKey)"
  then show "SweepAddress l w utxos address key (Some []) feeLevel = Panic ''index out of range''"
    by (auto simp add: SweepAddress_empty_script)
next
  show "Multisign l w ins outs sigs1 sigs2 [] feePerByte broadcast \<noteq> Return (Inr raw)"
    by (simp add: Multisign_empty_script split: sum.splits)
next
  show "SweepAddress l w utxos address key (Some []) feeLevel \<noteq> Return (Inr txid)"
    by (simp add: SweepAddress_empty_script split: sum.splits)
qed

theorem empty_redeemScript_panics_witness:
  "NewHashFromStr test_lib (hex_EncodeToString [0x01]) = Inr (1 # replicate 31 0) \<and>
   NewHashFromStr test_lib (hex_EncodeToString [0x02]) = Inr (2 # replicate 31 0) \<and>
   Multisign test_lib test_rpc test_ins test_outs test_sigs1 test_sigs2 [] 1 False =
     Panic ''index out of range'' \<and>
   PayToAddrScript test_lib (Some ''addr'') = Inr (map of_char ''addr'') \<and>
   ECPrivKey test_lib [0x01] = Inr [0x01] \<and>
   SweepAddress test_lib test_rpc [] (Some ''addr'') [0x01] (Some []) NORMAL =
     Panic ''index out of range''"
proof -
  have h1: "\<forall>i \<in> set test_ins.
              \<exists>ch. NewHashFromStr test_lib (hex_EncodeToString (OutpointHash i)) = Inr ch"
    by (simp add: test_ins_def test_hashes)
  have h2: "PayToAddrScript test_lib (Some ''addr'') = Inr (map of_char ''addr'')"
    by (simp add: test_lib_def)
  have h3: "ECPrivKey test_lib [0x01] = Inr [0x01]"
    by (simp add: test_lib_def)
  show ?thesis
    using empty_redeemScript_panics [of test_ins test_lib test_rpc test_outs test_sigs1 test_sigs2
        1 False "Some ''addr''" "[0x01]" "[]" NORMAL] h1 h2 h3 test_hashes
    by simp
qed

subsection \<open>The timeout of \<open>GenerateMultisigScript\<close>\<close>

lemma Hours_nonneg:
  assumes "0 \<le> sint d"
  shows "float_trunc (Hours d) = sint d div Hour"
proof -
  let ?x = "sint d"
  have H: "Hour = 3600000000000" by (simp add: Hour_def)
  have q: "?x sdiv Hour = ?x div Hour"
    using assms H by (cases "?x = 0") (simp_all add: signed_divide_int_def)
  have r: "?x smod Hour = ?x mod Hour"
    using assms H by (cases "?x = 0") (simp_all add: signed_modulo_int_def)
  have eq: "Hours d = of_int (?x div Hour) + of_int (?x mod Hour) / of_int Hour"
    unfolding Hours_def q r by (simp add: H)
  have fl: "\<lfloor>(of_int (?x mod Hour) / of_int Hour :: rat)\<rfloor> = 0"
    using H by (simp add: floor_divide_of_int_eq)
  have nn: "(0::rat) \<le> of_int (?x mod Hour) / of_int Hour"
    using H by simp
  have qn: "0 \<le> ?x div Hour"
    using assms H by (simp add: pos_imp_zdiv_nonneg_iff)
  have "(0::rat) \<le> Hours d"
    unfolding eq using nn qn by simp
  then have "float_trunc (Hours d) = \<lfloor>Hours d\<rfloor>"
    by (simp add: float_trunc_def)
  also have "\<dots> = ?x div Hour + \<lfloor>(of_int (?x mod Hour) / of_int Hour :: rat)\<rfloor>"
    unfolding eq by (rule int_add_floor [symmetric])
  finally show ?thesis using fl by simp
qed

lemma whole_hours_bound: "sint (d :: int64) div Hour < 2 ^ 32"
proof -
  have H: "Hour = 3600000000000" by (simp add: Hour_def)
  have "sint d < 2 ^ 63" using sint_lt [of d] by simp
  then have "sint d < 3600000000000 * 4294967296" by simp
  then have "sint d div 3600000000000 < 4294967296" by arith
  then show ?thesis
    using H by simp
qed

lemma uint32_Hours_pos_iff:
  assumes "0 \<le> sint d"
  shows "0 < uint32_of_float (Hours d) \<longleftrightarrow> Hour \<le> sint d"
proof -
  have H: "Hour = 3600000000000" by (simp add: Hour_def)
  let ?q = "sint d div Hour"
  have q0: "0 \<le> ?q" using assms H by (simp add: pos_imp_zdiv_nonneg_iff)
  have q32: "?q < 2 ^ 32" by (rule whole_hours_bound)
  have "uint32_of_float (Hours d) = (word_of_int ?q :: uint32)"
    by (simp add: uint32_of_float_def Hours_nonneg [OF assms])
  moreover have "uint (word_of_int ?q :: uint32) = ?q"
    using q0 q32 by (simp add: uint_word_of_int take_bit_int_eq_self)
  ultimately have "0 < uint32_of_float (Hours d) \<longleftrightarrow> 0 < ?q"
    by (simp add: word_less_def)
  also have "\<dots> \<longleftrightarrow> Hour \<le> sint d"
    using H by (simp add: pos_imp_zdiv_pos_iff)
  finally show ?thesis .
qed

lemma half_hour: "uint32_of_float (Hours 1800000000000) = 0"
proof -
  have s: "sint (1800000000000 :: int64) = 1800000000000" by simp
  have "\<not> 0 < uint32_of_float (Hours 1800000000000)"
    using uint32_Hours_pos_iff [of 1800000000000] s by (simp add: Hour_def)
  then show ?thesis by (simp add: word_greater_zero_iff)
qed

lemma test_address:
  "hex_EncodeToString (take 32 ([0x52, 2, 2, 1, 2, 2, 2, 2, 2, 3, 0x53, 0xae] @ replicate 32 0)) =
     ''5202020102020202020353ae0000000000000000000000000000000000000000''"
  by code_simp

text \<open>
  Claim C2, as stated, fails: the check is on \<open>uint32(timeout.Hours())\<close>, the whole
  hours of the timeout. With a timeout of thirty minutes and a nil timeout key the
  function returns an address and the plain 2-of-3 script.
\<close>

theorem sub_hour_timeout_counterexample:
  "GenerateMultisigScript test_lib [[2, 1], [2, 2], [2, 3]] 2 1800000000000 None =
     Return (Inr (''5202020102020202020353ae0000000000000000000000000000000000000000'',
                  [0x52, 2, 2, 1, 2, 2, 2, 2, 2, 3, 0x53, 0xae]))"
  unfolding GenerateMultisigScript_def half_hour
  using test_address
  by (simp add: test_lib_def multisigOps_def pushOp_def OP_CHECKMULTISIG_def word_sless_alt)

text \<open>
  Claim C2, amended. For every key list, threshold, and timeout of at least one hour,
  \<open>GenerateMultisigScript\<close> with a nil timeout key returns the missing-timeout-key error
  and produces no address and no redeem script.
\<close>

theorem missing_timeout_key:
  assumes "Hour \<le> sint timeout"
  shows "GenerateMultisigScript l keys threshold timeout None =
           Return (Inl (Error ''Timeout key must be non nil when using an escrow timeout''))"
proof -
  have "0 \<le> sint timeout" using assms by (simp add: Hour_def)
  then have "0 < uint32_of_float (Hours timeout)"
    using assms by (simp add: uint32_Hours_pos_iff)
  then show ?thesis
    by (simp add: GenerateMultisigScript_def)
qed

theorem missing_timeout_key_witness:
  "Hour \<le> sint (3600000000000 :: int64) \<and>
   GenerateMultisigScript test_lib [[2, 1], [2, 2], [2, 3]] 2 3600000000000 None =
     Return (Inl (Error ''Timeout key must be non nil when using an escrow timeout''))"
proof -
  have h: "Hour \<le> sint (3600000000000 :: int64)" by (simp add: Hour_def)
  show ?thesis
    using h missing_timeout_key [OF h, of test_lib "[[2, 1], [2, 2], [2, 3]]" 2] by simp
qed

text \<open>A timeout under one hour is treated as no timeout at all.\<close>

lemma sub_hour_timeout:
  assumes "0 \<le> sint timeout" "sint timeout < Hour"
  shows "GenerateMultisigScript l keys threshold timeout timeoutKey =
           GenerateMultisigScript l keys threshold 0 timeoutKey"
proof -
  have a: "\<not> 0 < uint32_of_float (Hours timeout)"
    using assms by (simp add: uint32_Hours_pos_iff)
  have b: "\<not> 0 < uint32_of_float (Hours 0)"
    using uint32_Hours_pos_iff [of 0] by (simp add: Hour_def)
  from a b have z: "uint32_of_float (Hours timeout) = 0" "uint32_of_float (Hours 0) = 0"
    by (simp_all add: word_greater_zero_iff)
  show ?thesis
    unfolding GenerateMultisigScript_def z by (simp split: sum.splits)
qed

subsection \<open>The rounding of float64\<close>

lemma float64_round_1e8: "float64_round 100000000 = 100000000"
  by code_simp

lemma bit_length_bounds:
  "0 < n \<Longrightarrow> 0 < bit_length n \<and> 2 ^ nat (bit_length n - 1) \<le> n \<and> n < 2 ^ nat (bit_length n)"
proof (induction n rule: bit_length.induct)
  case (1 n)
  show ?case
  proof (cases "n = 1")
    case True
    have "bit_length 1 = 1"
      by (simp add: bit_length.simps [of 1] bit_length.simps [of 0])
    with True show ?thesis by simp
  next
    case False
    with "1.prems" have n2: "2 \<le> n" by simp
    then have h: "0 < n div 2" by simp
    have ih: "0 < bit_length (n div 2)"
        "2 ^ nat (bit_length (n div 2) - 1) \<le> n div 2"
        "n div 2 < 2 ^ nat (bit_length (n div 2))"
      using "1.IH" h "1.prems" by simp_all
    define b where "b = bit_length (n div 2)"
    have bl: "bit_length n = 1 + b"
      using "1.prems" by (simp add: bit_length.simps [of n] b_def)
    have b0: "0 < b" using ih(1) by (simp add: b_def)
    have e1: "nat (1 + b - 1) = Suc (nat (b - 1))" using b0 by simp
    have e2: "nat (1 + b) = Suc (nat b)" using b0 by simp
    have lo: "2 * 2 ^ nat (b - 1) \<le> n"
      using ih(2) by (simp add: b_def; linarith)
    have hi: "n < 2 * 2 ^ nat b"
      using ih(3) by (simp add: b_def; linarith)
    show ?thesis
      unfolding bl e1 e2 using b0 lo hi by simp
  qed
qed

lemma float_exponent_le:
  assumes "0 < x"
  shows "2 powi (float_exponent x) \<le> x"
proof -
  obtain p q where pq: "quotient_of x = (p, q)" by (cases "quotient_of x")
  have q0: "0 < q" using quotient_of_denom_pos [OF pq] .
  have x: "x = of_int p / of_int q" using quotient_of_div [OF pq] .
  have p0: "0 < p" using assms q0 x by (simp add: zero_less_divide_iff)
  define bp where "bp = bit_length p"
  define bq where "bq = bit_length q"
  define k where "k = bp - bq"
  have bp1: "2 ^ nat (bp - 1) \<le> p" and bppos: "0 < bp"
    using bit_length_bounds [OF p0] by (simp_all add: bp_def)
  have bq1: "q < 2 ^ nat bq" and bqpos: "0 < bq"
    using bit_length_bounds [OF q0] by (simp_all add: bq_def)
  have fe: "float_exponent x = (if 2 powi k \<le> x then k else k - 1)"
    by (simp add: float_exponent_def pq Let_def k_def bp_def bq_def)
  show ?thesis
  proof (cases "2 powi k \<le> x")
    case True
    then show ?thesis by (simp add: fe)
  next
    case False
    define a where "a = nat (bp - 1)"
    define b where "b = nat bq"
    have k1: "k - 1 = int a - int b"
      using bppos bqpos by (simp add: k_def a_def b_def)
    have pa: "2 ^ a \<le> p" using bp1 by (simp add: a_def)
    have qb: "q \<le> 2 ^ b" using bq1 by (simp add: b_def)
    have "(2::rat) powi (int a - int b) = 2 powi (int a) / 2 powi (int b)"
      by (rule power_int_diff) simp
    then have "(2::rat) powi (k - 1) = 2 ^ a / 2 ^ b"
      unfolding k1 by simp
    also have "\<dots> \<le> of_int p / of_int q"
    proof -
      have "(of_int (2 ^ a) :: rat) \<le> of_int p"
        using pa by (simp only: of_int_le_iff)
      then have a': "(2::rat) ^ a \<le> of_int p" by simp
      have "(of_int q :: rat) \<le> of_int (2 ^ b)"
        using qb by (simp only: of_int_le_iff)
      then have b': "(of_int q :: rat) \<le> 2 ^ b" by simp
      have qq: "(0::rat) < of_int q" using q0 by simp
      show ?thesis
        by (rule frac_le) (use a' b' qq p0 in simp_all)
    qed
    finally have "2 powi (k - 1) \<le> x" unfolding x .
    then show ?thesis using False by (simp add: fe)
  qed
qed

lemma round_half_even_bounds:
  assumes "0 \<le> y"
  shows "0 \<le> round_half_even y" and "of_int (round_half_even y) \<le> y + 1 / 2"
proof -
  define n where "n = \<lfloor>y\<rfloor>"
  have n0: "0 \<le> n" using assms by (simp add: n_def)
  have fl: "of_int n \<le> y" by (simp add: n_def)
  have c: "round_half_even y = n \<or> (round_half_even y = n + 1 \<and> 1 / 2 \<le> y - of_int n)"
    by (auto simp add: round_half_even_def Let_def n_def not_less)
  show "0 \<le> round_half_even y"
    using c n0 by auto
  show "of_int (round_half_even y) \<le> y + 1 / 2"
    using c fl by auto
qed

lemma float64_round_bounds:
  assumes "0 \<le> x"
  shows "0 \<le> float64_round x" and "float64_round x \<le> 2 * x + 1 / 2 ^ 1075"
proof -
  have "0 \<le> float64_round x \<and> float64_round x \<le> 2 * x + 1 / 2 ^ 1075"
  proof (cases "x = 0")
    case True
    then show ?thesis by (simp add: float64_round_def)
  next
    case False
    with assms have xpos: "0 < x" by simp
    define e where "e = max (float_exponent x) (- 1022)"
    define ulp :: rat where "ulp = 2 powi (e - 52)"
    define n where "n = round_half_even (x / ulp)"
    have ulp0: "0 < ulp" by (simp add: ulp_def)
    have R: "float64_round x = of_int n * ulp"
      using xpos by (simp add: float64_round_def Let_def e_def ulp_def n_def)
    have y0: "0 \<le> x / ulp" using xpos ulp0 by simp
    have n0: "0 \<le> n" and n1: "of_int n \<le> x / ulp + 1 / 2"
      using round_half_even_bounds [OF y0] by (simp_all add: n_def)
    have "of_int n * ulp \<le> (x / ulp + 1 / 2) * ulp"
      using n1 ulp0 by (simp add: mult_right_mono)
    also have "\<dots> = x + ulp / 2"
      using ulp0 by (simp add: field_simps)
    finally have up: "float64_round x \<le> x + ulp / 2" by (simp add: R)
    have half: "ulp / 2 \<le> x + 1 / 2 ^ 1075"
    proof (cases "float_exponent x \<le> - 1022")
      case True
      then have "e = - 1022" by (simp add: e_def)
      then have "ulp = 2 powi (- 1074)" by (simp add: ulp_def)
      then have "ulp / 2 = 1 / 2 ^ 1075" by (simp add: power_int_minus_divide)
      then show ?thesis using xpos by simp
    next
      case False
      then have "e = float_exponent x" by (simp add: e_def)
      then have "ulp = 2 powi (float_exponent x) / 2 ^ 52"
        by (simp add: ulp_def power_int_diff)
      moreover have "2 powi (float_exponent x) \<le> x" by (rule float_exponent_le [OF xpos])
      ultimately have "ulp \<le> x / 2 ^ 52" by (simp add: divide_right_mono)
      also have "\<dots> \<le> x" using xpos by (simp add: field_simps)
      finally have "ulp / 2 \<le> x" using ulp0 by simp
      then show ?thesis by (simp add: add_increasing2)
    qed
    show ?thesis
      using up half n0 ulp0 by (simp add: R)
  qed
  then show "0 \<le> float64_round x" and "float64_round x \<le> 2 * x + 1 / 2 ^ 1075" by simp_all
qed

lemma tiny_le: "(1::rat) / 2 ^ 1075 \<le> 1 / 8"
proof -
  have "(2::rat) ^ 3 \<le> 2 ^ 1075" by (rule power_increasing) simp_all
  then show ?thesis by (simp add: field_simps)
qed

lemma fdiv_below_one_coin:
  assumes "0 \<le> a" "a < 1"
  shows "int64_of_float (fdiv a 100000000) = 0"
proof -
  define d :: rat where "d = 1 / 2 ^ 1075"
  have d: "0 \<le> d" "d \<le> 1 / 8" using tiny_le by (simp_all add: d_def)
  have a0: "0 \<le> float64_round a" and a1: "float64_round a \<le> 2 * a + d"
    using float64_round_bounds [OF assms(1)] by (simp_all add: d_def)
  define y where "y = float64_round a / 100000000"
  have y0: "0 \<le> y" using a0 by (simp add: y_def)
  have y1: "y \<le> (2 * a + d) / 100000000" using a1 by (simp add: y_def divide_right_mono)
  have r0: "0 \<le> float64_round y" and r1: "float64_round y \<le> 2 * y + d"
    using float64_round_bounds [OF y0] by (simp_all add: d_def)
  have "float64_round y < 1" using r1 y1 d assms by simp
  moreover have "fdiv a 100000000 = float64_round y"
    by (simp add: fdiv_def y_def float64_round_1e8)
  ultimately have "\<lfloor>fdiv a 100000000\<rfloor> = 0" using r0 by (simp add: floor_eq_iff)
  then show ?thesis using r0 \<open>fdiv a 100000000 = float64_round y\<close>
    by (simp add: int64_of_float_def float_trunc_def)
qed

subsection \<open>The input values of \<open>EstimateSpendFee\<close>\<close>

lemma addInputValue_find:
  "addInputValue l input utxos inval =
     inval + (case find (\<lambda>utxo. TxID utxo = Hash_String l (Hash (PreviousOutPoint input)) \<and>
                               Vout utxo = Index (PreviousOutPoint input)) utxos of
                None \<Rightarrow> 0
              | Some utxo \<Rightarrow> int64_of_float (fmul (Amount utxo) 100000000))"
  by (induction utxos) auto

lemma foldl_plus_sum_list:
  fixes a :: int64
  shows "foldl (\<lambda>acc x. acc + f x) a xs = a + sum_list (map f xs)"
  by (induction xs arbitrary: a) (simp_all add: add.assoc)

text \<open>
  \<open>EstimateSpendFee\<close> multiplies: the value of an input is
  \<open>int64(utxo.Amount * 100000000)\<close> of the first unspent output that matches it, and the
  fee the sum of these less the sum of the outputs.
\<close>

lemma EstimateSpendFee_multiplies:
  assumes "EstimateSpendFee l w buildTx amount feeLevel = Inr fee"
  shows "\<exists>addr tx utxos.
           DecodeAddress l ''bc1qxtq7ha2l5qg70atpwp3fus84fx3w0v2w4r2my7gt89ll3w0vnlgspu349h'' = Inr addr \<and>
           buildTx amount addr feeLevel = Inr tx \<and> ListUnspent w = Inr utxos \<and>
           fee =
             (\<Sum>input\<leftarrow>TxIn tx.
                case find (\<lambda>utxo. TxID utxo = Hash_String l (Hash (PreviousOutPoint input)) \<and>
                                  Vout utxo = Index (PreviousOutPoint input)) utxos of
                  None \<Rightarrow> 0
                | Some utxo \<Rightarrow> int64_of_float (fmul (Amount utxo) 100000000))
             - (\<Sum>output\<leftarrow>TxOut tx. Value output)"
  using assms
  by (auto simp add: EstimateSpendFee_def Let_def addInputValue_find foldl_plus_sum_list
      split: sum.splits if_splits)

lemma test_input_matches:
  "TxID test_unspent =
     Hash_String test_lib (Hash (PreviousOutPoint (NewTxIn (NewOutPoint (1 # replicate 31 0) 0) [] [])))"
  by (simp add: test_unspent_def test_lib_def NewTxIn_def NewOutPoint_def)

lemma test_amount:
  "int64_of_float (fmul (29 / 100) 100000000) = 28999999"
  "int64_of_float (fdiv (29 / 100) 100000000) = 0"
  by code_simp+

lemma test_addInputValue:
  "addInputValue test_lib (NewTxIn (NewOutPoint (1 # replicate 31 0) 0) [] []) [test_unspent] 0
     = 28999999"
  using test_input_matches
  by (simp add: test_unspent_def test_amount NewTxIn_def NewOutPoint_def)

lemma test_EstimateSpendFee:
  "EstimateSpendFee test_lib test_rpc test_buildTx 20000000 NORMAL = Inr 10000"
proof -
  have d: "DecodeAddress test_lib ''bc1qxtq7ha2l5qg70atpwp3fus84fx3w0v2w4r2my7gt89ll3w0vnlgspu349h''
             = Inr ''bc1qxtq7ha2l5qg70atpwp3fus84fx3w0v2w4r2my7gt89ll3w0vnlgspu349h''"
    by (simp add: test_lib_def)
  have u: "ListUnspent test_rpc = Inr [test_unspent]"
    by (simp add: test_rpc_def)
  show ?thesis
    unfolding EstimateSpendFee_def d u
    using test_addInputValue
    by (simp add: test_buildTx_def NewTxOut_def word_sless_alt)
qed

text \<open>
  Claim C6, as stated, fails: for an unspent output of 0.29 coin \<open>EstimateSpendFee\<close> counts
  28999999 base units, where \<open>int64(u.Amount / 100000000)\<close> is 0; the fee of the
  transaction built on it is 10000, not the error of inputs below outputs.
\<close>

theorem EstimateSpendFee_divides_counterexample:
  "addInputValue test_lib (NewTxIn (NewOutPoint (1 # replicate 31 0) 0) [] []) [test_unspent] 0
     = 28999999 \<and>
   divided_input_value test_unspent = 0 \<and>
   EstimateSpendFee test_lib test_rpc test_buildTx 20000000 NORMAL = Inr 10000"
  using test_addInputValue test_EstimateSpendFee
  by (simp add: divided_input_value_def test_unspent_def test_amount)

subsection \<open>The value \<open>BumpFee\<close> sweeps\<close>

lemma bumpLoop_value:
  "bumpLoop l w txid unspent = Inr (utxo, hdKey) \<Longrightarrow>
   \<exists>u \<in> set unspent. TxID u = Hash_String l txid \<and>
     utxo_Value utxo = int64_of_float (fdiv (Amount u) 100000000)"
  by (induction unspent) (auto simp add: BumpFee_utxo_def Let_def split: if_splits sum.splits)

text \<open>
  Claim C6, amended. \<open>BumpFee\<close> computes the value of the in-flight output it sweeps as
  \<open>int64(u.Amount / 100000000)\<close>: it divides the daemon-reported amount by \<open>10^8\<close> where
  the other paths multiply, and the precision is lost: every amount below one coin
  becomes 0. The output it hands to \<open>SweepAddress\<close> is an unspent output of the
  transaction with that value.
\<close>

theorem BumpFee_divides:
  assumes "BumpFee_select l w txid = Inr (utxo, hdKey)"
  shows "BumpFee l w txid = SweepAddress l w [utxo] None hdKey None FEE_BUMP \<and>
         (\<exists>unspent u. ListUnspent w = Inr unspent \<and> u \<in> set unspent \<and>
            TxID u = Hash_String l txid \<and>
            utxo_Value utxo = int64_of_float (fdiv (Amount u) 100000000) \<and>
            (0 \<le> Amount u \<and> Amount u < 1 \<longrightarrow> utxo_Value utxo = 0))"
proof -
  from assms obtain unspent where
    lu: "ListUnspent w = Inr unspent" and bl: "bumpLoop l w txid unspent = Inr (utxo, hdKey)"
    by (auto simp add: BumpFee_select_def split: sum.splits if_splits)
  from bumpLoop_value [OF bl] obtain u where
    u: "u \<in> set unspent" "TxID u = Hash_String l txid"
       "utxo_Value utxo = int64_of_float (fdiv (Amount u) 100000000)"
    by blast
  have "0 \<le> Amount u \<and> Amount u < 1 \<longrightarrow> utxo_Value utxo = 0"
    using u(3) fdiv_below_one_coin by simp
  moreover have "BumpFee l w txid = SweepAddress l w [utxo] None hdKey None FEE_BUMP"
    using assms by (simp add: BumpFee_def)
  ultimately show ?thesis
    using lu u by blast
qed

lemma test_txid_hash:
  "NewHashFromStr test_lib (TxID test_unspent) = Inr (1 # replicate 31 0)"
  by code_simp

lemma test_script: "hex_DecodeString ''76a9'' = Inr [0x76, 0xa9]"
  by code_simp

lemma test_BumpFee_select:
  "BumpFee_select test_lib test_rpc (1 # replicate 31 0) =
     Inr (\<lparr>Op = \<lparr>Hash = 1 # replicate 31 0, Index = 0\<rparr>, utxo_Value = 0,
           ScriptPubkey = [0x76, 0xa9]\<rparr>, [0x01])"
proof -
  have m: "TxID test_unspent = Hash_String test_lib (1 # replicate 31 0)"
    by (simp add: test_unspent_def test_lib_def)
  have g: "GetTransaction test_rpc (1 # replicate 31 0) False = Inr \<lparr>tx_Confirmations = 0\<rparr>"
       "ListUnspent test_rpc = Inr [test_unspent]"
       "DumpPrivKey test_rpc ''PHoReAddress'' = Inr [0x01]"
    by (simp_all add: test_rpc_def)
  have f: "unspent_ScriptPubKey test_unspent = ''76a9''" "Address test_unspent = ''PHoReAddress''"
       "Confirmations test_unspent = 0" "Vout test_unspent = 0" "Amount test_unspent = 29 / 100"
    by (simp_all add: test_unspent_def)
  have l: "DecodeAddress test_lib ''PHoReAddress'' = Inr ''PHoReAddress''"
       "NewExtendedKey test_lib [0x01] = [0x01]"
    by (simp_all add: test_lib_def)
  have s: "hex_DecodeString (unspent_ScriptPubKey test_unspent) = Inr [0x76, 0xa9]"
    using test_script by (simp only: f)
  show ?thesis
    unfolding BumpFee_select_def g
    by (simp add: m [symmetric] test_txid_hash s f(2-5) g l BumpFee_utxo_def NewOutPoint_def
        test_amount word_sless_alt del: hex_DecodeString.simps)
qed

theorem BumpFee_divides_witness:
  "BumpFee_select test_lib test_rpc (1 # replicate 31 0) =
     Inr (\<lparr>Op = \<lparr>Hash = 1 # replicate 31 0, Index = 0\<rparr>, utxo_Value = 0,
           ScriptPubkey = [0x76, 0xa9]\<rparr>, [0x01]) \<and>
   BumpFee test_lib test_rpc (1 # replicate 31 0) =
     SweepAddress test_lib test_rpc
       [\<lparr>Op = \<lparr>Hash = 1 # replicate 31 0, Index = 0\<rparr>, utxo_Value = 0,
         ScriptPubkey = [0x76, 0xa9]\<rparr>] None [0x01] None FEE_BUMP \<and>
   0 \<le> Amount test_unspent \<and> Amount test_unspent < 1 \<and>
   int64_of_float (fdiv (Amount test_unspent) 100000000) = 0 \<and>
   int64_of_float (fmul (Amount test_unspent) 100000000) = 28999999"
  using BumpFee_divides [OF test_BumpFee_select] test_BumpFee_select
  by (simp add: test_unspent_def test_amount)

section \<open>Properties of the protocol service\<close>

lemma handleNewMessage_banned:
  "IsBanned service (RemotePeer s) \<Longrightarrow> handleNewMessage service s = s"
  by (simp add: handleNewMessage_def)

lemma handleNewMessage_not_banned_closes:
  "\<not> IsBanned service (RemotePeer s) \<Longrightarrow> closed (handleNewMessage service s)"
  by (simp add: handleNewMessage_def Let_def)

text \<open>
  Claim C7. For an inbound stream from a banned peer \<open>handleNewMessage\<close> returns at the
  ban check: nothing is read and no handler runs, but the stream is not closed either,
  since the deferred \<open>Close\<close> is registered only after the check. Every other return
  closes the stream.
\<close>

theorem banned_stream_left_open:
  "closed (handleNewMessage test_service
     \<lparr>RemotePeer = ''QmBanned'', incoming = [Inr \<lparr>MessageType = 1, Payload = []\<rparr>],
      writeFails = False, events = [], closed = False\<rparr>) = False \<and>
   events (handleNewMessage test_service
     \<lparr>RemotePeer = ''QmBanned'', incoming = [Inr \<lparr>MessageType = 1, Payload = []\<rparr>],
      writeFails = False, events = [], closed = False\<rparr>) = []"
  by (simp add: handleNewMessage_def test_service_def)

lemma other_stream_closed:
  "handleNewMessage test_service
     \<lparr>RemotePeer = ''QmOther'', incoming = [Inr \<lparr>MessageType = 1, Payload = []\<rparr>],
      writeFails = False, events = [], closed = False\<rparr> =
     \<lparr>RemotePeer = ''QmOther'', incoming = [Inr \<lparr>MessageType = 1, Payload = []\<rparr>],
      writeFails = False,
      events = [Bind ''QmOther'', Read, Handle \<lparr>MessageType = 1, Payload = []\<rparr>,
                Write \<lparr>MessageType = 1, Payload = []\<rparr>, Read],
      closed = True\<rparr>"
  by (simp add: handleNewMessage_def test_service_def messageSenderForPeer_def Let_def)

end
